theory Spec2Isabelle
  imports Main "HOL-Library.Word" "HOL-Library.Sublist"
begin

section \<open>callaudiod: the PulseAudio back-end (src/cad-pulse.c)\<close>

text \<open>
  A shallow embedding of \<^verbatim>\<open>src/cad-pulse.c\<close> as it is configured in the source:
  line 31 defines \<^verbatim>\<open>WITH_DROID_SUPPORT\<close>, so of every \<^verbatim>\<open>#ifdef WITH_DROID_SUPPORT\<close>
  pair the first variant is the one embedded. The one place where the other variant is
  kept is \<^verbatim>\<open>init_module_info\<close>, whose body is the only \<^verbatim>\<open>#ifndef\<close> of the file.

  C pointers that may be \<^verbatim>\<open>NULL\<close> are options, \<^verbatim>\<open>guint\<close> and \<^verbatim>\<open>uint32_t\<close> are
  32-bit words, and \<^verbatim>\<open>int\<close> indices are 32-bit words read through \<open>sint\<close> where the
  code compares them as signed.
\<close>

subsection \<open>Constants\<close>

type_synonym guint = "32 word"
type_synonym uint32_t = "32 word"

definition SINK_CLASS :: string where "SINK_CLASS = ''sound''"
definition CARD_BUS_PATH_PREFIX :: string where "CARD_BUS_PATH_PREFIX = ''platform-''"
definition CARD_FORM_FACTOR :: string where "CARD_FORM_FACTOR = ''internal''"
definition CARD_MODEM_CLASS :: string where "CARD_MODEM_CLASS = ''modem''"

definition DROID_API_NAME :: string where "DROID_API_NAME = ''droid-hal''"
definition DROID_PROFILE_HIFI :: string where "DROID_PROFILE_HIFI = ''default''"
definition DROID_PROFILE_VOICECALL :: string where "DROID_PROFILE_VOICECALL = ''voicecall''"
definition DROID_OUTPUT_PORT_PARKING :: string where
  "DROID_OUTPUT_PORT_PARKING = ''output-parking''"
definition DROID_OUTPUT_PORT_SPEAKER :: string where
  "DROID_OUTPUT_PORT_SPEAKER = ''output-speaker''"
definition DROID_OUTPUT_PORT_EARPIECE :: string where
  "DROID_OUTPUT_PORT_EARPIECE = ''output-earpiece''"
definition DROID_OUTPUT_PORT_WIRED_HEADSET :: string where
  "DROID_OUTPUT_PORT_WIRED_HEADSET = ''output-wired_headset''"
definition DROID_INPUT_PORT_PARKING :: string where
  "DROID_INPUT_PORT_PARKING = ''input-parking''"
definition DROID_INPUT_PORT_BUILTIN_MIC :: string where
  "DROID_INPUT_PORT_BUILTIN_MIC = ''input-builtin_mic''"
definition DROID_INPUT_PORT_WIRED_HEADSET_MIC :: string where
  "DROID_INPUT_PORT_WIRED_HEADSET_MIC = ''input-wired_headset''"

subsection \<open>Ports and the two port selectors\<close>

datatype pa_port_available =
  PA_PORT_AVAILABLE_UNKNOWN | PA_PORT_AVAILABLE_NO | PA_PORT_AVAILABLE_YES

text \<open>
  \<^verbatim>\<open>pa_sink_port_info\<close> and \<^verbatim>\<open>pa_source_port_info\<close> have the same three fields that the
  code reads; one record serves both.
\<close>

record pa_port_info =
  port_name :: string
  port_priority :: uint32_t
  port_available :: pa_port_available

text \<open>
  The test that opens both selector loops (lines 119-120 and 287-288):
  \<^verbatim>\<open>(exclude && strcmp(port->name, exclude) == 0) || port->available == PA_PORT_AVAILABLE_NO\<close>.
\<close>

definition port_skipped :: "string option \<Rightarrow> pa_port_info \<Rightarrow> bool" where
  "port_skipped exclude port =
     ((case exclude of None \<Rightarrow> False | Some e \<Rightarrow> port_name port = e)
      \<or> port_available port = PA_PORT_AVAILABLE_NO)"

text \<open>
  The native arm of both loops (lines 134 and 302):
  \<^verbatim>\<open>!available_port || port->priority > available_port->priority\<close>, an unsigned comparison.
\<close>

definition higher_priority :: "pa_port_info option \<Rightarrow> pa_port_info \<Rightarrow> bool" where
  "higher_priority available_port port =
     (case available_port of None \<Rightarrow> True | Some a \<Rightarrow> port_priority a < port_priority port)"

text \<open>
  The loop of \<^verbatim>\<open>get_available_source_port\<close> (lines 116-141) over the ports still to
  visit, with the local \<^verbatim>\<open>available_port\<close> as accumulator; \<^verbatim>\<open>break\<close> returns at once.
\<close>

fun source_port_loop ::
  "pa_port_info list \<Rightarrow> string option \<Rightarrow> bool \<Rightarrow> pa_port_info option \<Rightarrow> pa_port_info option"
where
  "source_port_loop [] exclude source_is_droid available_port = available_port"
| "source_port_loop (port # ports) exclude source_is_droid available_port =
     (if port_skipped exclude port
      then source_port_loop ports exclude source_is_droid available_port
      else if source_is_droid
      then (if port_name port = DROID_INPUT_PORT_WIRED_HEADSET_MIC
            then Some port
            else if port_name port = DROID_INPUT_PORT_BUILTIN_MIC
            then source_port_loop ports exclude source_is_droid (Some port)
            else source_port_loop ports exclude source_is_droid available_port)
      else if higher_priority available_port port
      then source_port_loop ports exclude source_is_droid (Some port)
      else source_port_loop ports exclude source_is_droid available_port)"

text \<open>
  The loop of \<^verbatim>\<open>get_available_sink_port\<close> (lines 284-309). The flag keeps the name the
  source gives to the third parameter, \<^verbatim>\<open>source_is_droid\<close>.
\<close>

fun sink_port_loop ::
  "pa_port_info list \<Rightarrow> string option \<Rightarrow> bool \<Rightarrow> pa_port_info option \<Rightarrow> pa_port_info option"
where
  "sink_port_loop [] exclude source_is_droid available_port = available_port"
| "sink_port_loop (port # ports) exclude source_is_droid available_port =
     (if port_skipped exclude port
      then sink_port_loop ports exclude source_is_droid available_port
      else if source_is_droid
      then (if port_name port = DROID_OUTPUT_PORT_WIRED_HEADSET
            then Some port
            else if port_name port = DROID_OUTPUT_PORT_SPEAKER
                    \<or> port_name port = DROID_OUTPUT_PORT_EARPIECE
            then sink_port_loop ports exclude source_is_droid (Some port)
            else sink_port_loop ports exclude source_is_droid available_port)
      else if higher_priority available_port port
      then sink_port_loop ports exclude source_is_droid (Some port)
      else sink_port_loop ports exclude source_is_droid available_port)"

subsection \<open>Server objects\<close>

text \<open>
  A property list is a finite map from keys to strings; \<^verbatim>\<open>pa_proplist_gets\<close> is the
  lookup and returns \<^verbatim>\<open>NULL\<close> for a missing key.
\<close>

type_synonym pa_proplist = "string \<rightharpoonup> string"

definition pa_proplist_gets :: "pa_proplist \<Rightarrow> string \<Rightarrow> string option" where
  "pa_proplist_gets p key = p key"

text \<open>
  Modelled from the spec: the property keys are macros of the PulseAudio header
  \<^verbatim>\<open>pulse/proplist.h\<close>, which is not among the sources; the spec names the keys in its
  filter predicates and in its description of the back-end flavor.
\<close>

definition PA_PROP_DEVICE_BUS_PATH :: string where
  "PA_PROP_DEVICE_BUS_PATH = ''device.bus_path''"
definition PA_PROP_DEVICE_FORM_FACTOR :: string where
  "PA_PROP_DEVICE_FORM_FACTOR = ''device.form_factor''"
definition PA_PROP_DEVICE_CLASS :: string where
  "PA_PROP_DEVICE_CLASS = ''device.class''"
definition PA_PROP_DEVICE_API :: string where
  "PA_PROP_DEVICE_API = ''device.api''"

record pa_sink_info =
  sink_info_name :: string
  sink_info_index :: uint32_t
  sink_info_card :: uint32_t
  sink_info_proplist :: pa_proplist
  sink_info_ports :: "pa_port_info list"
  sink_info_active_port :: "pa_port_info option"

record pa_source_info =
  source_info_name :: string
  source_info_index :: uint32_t
  source_info_card :: uint32_t
  source_info_proplist :: pa_proplist
  source_info_mute :: bool
  source_info_ports :: "pa_port_info list"
  source_info_active_port :: "pa_port_info option"

definition get_available_source_port ::
  "pa_source_info \<Rightarrow> string option \<Rightarrow> bool \<Rightarrow> string option" where
  "get_available_source_port source exclude source_is_droid =
     (case source_port_loop (source_info_ports source) exclude source_is_droid None of
        Some available_port \<Rightarrow> Some (port_name available_port)
      | None \<Rightarrow> None)"

definition get_available_sink_port ::
  "pa_sink_info \<Rightarrow> string option \<Rightarrow> bool \<Rightarrow> string option" where
  "get_available_sink_port sink exclude source_is_droid =
     (case sink_port_loop (sink_info_ports sink) exclude source_is_droid None of
        Some available_port \<Rightarrow> Some (port_name available_port)
      | None \<Rightarrow> None)"

record pa_card_profile_info2 =
  profile_name :: string

record pa_card_info =
  card_info_name :: string
  card_info_index :: uint32_t
  card_info_proplist :: pa_proplist
  card_info_profiles2 :: "pa_card_profile_info2 list"
  card_info_active_profile2 :: "pa_card_profile_info2 option"

record pa_module_info =
  module_info_name :: string
  module_info_index :: uint32_t

text \<open>
  The string tokens of \<^verbatim>\<open>alsa/use-case.h\<close>. The header is not among the sources and
  the code only compares names with the tokens, so the functions that read one take the
  three of them as a parameter.
\<close>

record alsa_use_case =
  SND_USE_CASE_VERB_HIFI :: string
  SND_USE_CASE_VERB_VOICECALL :: string
  SND_USE_CASE_DEV_SPEAKER :: string

text \<open>\<^verbatim>\<open>strstr(haystack, needle) != NULL\<close> and \<^verbatim>\<open>g_str_has_prefix(str, prefix)\<close>.\<close>

fun strstr :: "string \<Rightarrow> string \<Rightarrow> bool" where
  "strstr [] needle = (needle = [])"
| "strstr (c # cs) needle = (prefix needle (c # cs) \<or> strstr cs needle)"

definition g_str_has_prefix :: "string \<Rightarrow> string \<Rightarrow> bool" where
  "g_str_has_prefix str pfx = prefix pfx str"

subsection \<open>The back-end object, operations and what a handler does to the outside\<close>

text \<open>
  \<^verbatim>\<open>struct _CadPulse\<close> without the loop and the context. The three indices are C
  \<^verbatim>\<open>int\<close>s: \<open>- 1\<close> is the word of all ones, and the code compares an index with the
  server's \<^verbatim>\<open>uint32_t\<close> after the usual conversion, that is, as words. A port table
  is a \<^verbatim>\<open>GHashTable *\<close> from port names to the availability last seen.
\<close>

type_synonym port_table = "string \<rightharpoonup> pa_port_available"

record CadPulse =
  card_id :: "32 word"
  sink_id :: "32 word"
  source_id :: "32 word"
  sink_is_droid :: bool
  source_is_droid :: bool
  has_voice_profile :: bool
  speaker_port :: "string option"
  sink_ports :: "port_table option"
  source_ports :: "port_table option"
  current_mode :: guint

text \<open>
  Modelled from the spec: \<^verbatim>\<open>CadOperation\<close>, its type tags and the two call audio modes
  are declared in \<^verbatim>\<open>cad-operation.h\<close> and \<^verbatim>\<open>libcallaudio.h\<close>, which are not among the
  sources. The spec gives the three kinds of operation, the success flag handed to the
  completion handle, and the values \<open>Default = 0\<close> and \<open>Call = 1\<close>.
\<close>

datatype CadOperationType =
  CAD_OPERATION_SELECT_MODE | CAD_OPERATION_ENABLE_SPEAKER | CAD_OPERATION_MUTE_MIC

record CadOperation =
  op_type :: CadOperationType
  op_success :: bool

definition CALL_AUDIO_MODE_DEFAULT :: guint where "CALL_AUDIO_MODE_DEFAULT = 0"
definition CALL_AUDIO_MODE_CALL :: guint where "CALL_AUDIO_MODE_CALL = 1"

text \<open>
  \<^verbatim>\<open>struct _CadPulseOperation\<close>; its \<^verbatim>\<open>pulse\<close> field always points to the one
  \<^verbatim>\<open>CadPulse\<close> of the process, which the model threads through every handler.
\<close>

record CadPulseOperation =
  operation_op :: "CadOperation option"
  operation_value :: guint

text \<open>The functions of the file that are handed to the server as callbacks.\<close>

datatype pa_context_success_cb_t =
  Operation_complete_cb
| Droid_source_parked_complete_cb
| Droid_sink_parked_complete_cb
| Droid_mode_change_complete_cb
| Droid_output_port_change_complete_cb

datatype pa_card_info_cb_t = Init_card_info | Set_card_profile
datatype pa_sink_info_cb_t = Init_sink_info | Change_sink_info | Set_output_port
datatype pa_source_info_cb_t =
  Init_source_info | Change_source_info | Set_input_port | Set_mic_mute

text \<open>
  The requests the file sends to the server, each with the arguments the code passes.
  A callback with its user data is an option where the code passes \<^verbatim>\<open>NULL, NULL\<close>
  somewhere; the user data of an info request is the operation, or \<open>None\<close> where the code
  passes the \<^verbatim>\<open>CadPulse\<close> itself.
\<close>

datatype pa_request =
  Set_card_profile_by_index uint32_t string pa_context_success_cb_t CadPulseOperation
| Set_sink_port_by_index uint32_t string "(pa_context_success_cb_t \<times> CadPulseOperation) option"
| Set_source_port_by_index uint32_t string "(pa_context_success_cb_t \<times> CadPulseOperation) option"
| Set_source_mute_by_index uint32_t bool pa_context_success_cb_t CadPulseOperation
| Unload_module uint32_t
| Get_card_info_list pa_card_info_cb_t
| Get_module_info_list
| Get_sink_info_list pa_sink_info_cb_t
| Get_source_info_list pa_source_info_cb_t
| Get_card_info_by_index uint32_t pa_card_info_cb_t "CadPulseOperation option"
| Get_sink_info_by_index uint32_t pa_sink_info_cb_t "CadPulseOperation option"
| Get_source_info_by_index uint32_t pa_source_info_cb_t "CadPulseOperation option"

text \<open>
  What a handler does besides updating the \<^verbatim>\<open>CadPulse\<close>: it sends requests, and it
  calls \<^verbatim>\<open>op->callback(op)\<close>, the completion handle of a user's operation, with the
  operation as it is at the call.
\<close>

datatype effect = Request pa_request | Completion CadOperation

text \<open>
  Where the C program stops or has no defined behaviour: a \<^verbatim>\<open>NULL\<close> pointer is read
  (also by \<^verbatim>\<open>strcmp\<close>), \<^verbatim>\<open>g_assert\<close> fails, \<^verbatim>\<open>g_error\<close> aborts.
\<close>

datatype fault = Null_dereference | Assertion_failed | Fatal_error

type_synonym outcome = "fault + CadPulse \<times> effect list"

text \<open>
  A request function of the library returns a \<^verbatim>\<open>pa_operation *\<close>, which is \<^verbatim>\<open>NULL\<close>
  when the context does not take the request. The context is modelled by this one bit,
  the only thing the code observes of it.
\<close>

type_synonym pa_context = bool

definition issue :: "pa_context \<Rightarrow> pa_request \<Rightarrow> effect list" where
  "issue ctx r = (if ctx then [Request r] else [])"

subsection \<open>Discovery and reconciliation (lines 153-264, 321-533)\<close>

text \<open>
  \<^verbatim>\<open>g_hash_table_lookup\<close> gives \<^verbatim>\<open>NULL\<close> for a missing key, which
  \<^verbatim>\<open>GPOINTER_TO_INT\<close> reads as 0, the value of \<^verbatim>\<open>PA_PORT_AVAILABLE_UNKNOWN\<close>; on a
  \<^verbatim>\<open>NULL\<close> table GLib returns at once from both functions.
\<close>

definition g_hash_table_lookup :: "port_table option \<Rightarrow> string \<Rightarrow> pa_port_available" where
  "g_hash_table_lookup tbl key =
     (case tbl of None \<Rightarrow> PA_PORT_AVAILABLE_UNKNOWN
      | Some m \<Rightarrow> (case m key of None \<Rightarrow> PA_PORT_AVAILABLE_UNKNOWN | Some a \<Rightarrow> a))"

definition g_hash_table_insert ::
  "port_table option \<Rightarrow> string \<Rightarrow> pa_port_available \<Rightarrow> port_table option" where
  "g_hash_table_insert tbl key a = (case tbl of None \<Rightarrow> None | Some m \<Rightarrow> Some (m(key \<mapsto> a)))"

text \<open>
  The loop shared by \<^verbatim>\<open>change_source_info\<close> and \<^verbatim>\<open>change_sink_info\<close> (lines 172-184
  and 340-352): the table and the local \<^verbatim>\<open>change\<close>.
\<close>

fun change_ports_loop ::
  "pa_port_info list \<Rightarrow> port_table option \<Rightarrow> bool \<Rightarrow> port_table option \<times> bool" where
  "change_ports_loop [] tbl change = (tbl, change)"
| "change_ports_loop (port # ports) tbl change =
     (if port_available port \<noteq> PA_PORT_AVAILABLE_UNKNOWN
         \<and> g_hash_table_lookup tbl (port_name port) \<noteq> port_available port
      then change_ports_loop ports
             (g_hash_table_insert tbl (port_name port) (port_available port)) True
      else change_ports_loop ports tbl change)"

definition change_source_info ::
  "pa_context \<Rightarrow> CadPulse \<Rightarrow> pa_source_info option \<Rightarrow> int \<Rightarrow> CadPulse \<times> effect list" where
  "change_source_info ctx self info eol =
     (if eol \<noteq> 0 then (self, [])
      else case info of
        None \<Rightarrow> (self, [])
      | Some i \<Rightarrow>
          if source_info_index i \<noteq> source_id self then (self, [])
          else
            (case change_ports_loop (source_info_ports i) (source_ports self) False of
               (tbl, change) \<Rightarrow>
                 (self\<lparr>source_ports := tbl\<rparr>,
                  if change
                  then (case get_available_source_port i None (source_is_droid self) of
                          Some target_port \<Rightarrow>
                            issue ctx (Set_source_port_by_index (source_id self) target_port None)
                        | None \<Rightarrow> [])
                  else [])))"

fun new_source_ports_loop :: "pa_port_info list \<Rightarrow> port_table option \<Rightarrow> port_table option" where
  "new_source_ports_loop [] tbl = tbl"
| "new_source_ports_loop (port # ports) tbl =
     (if port_available port \<noteq> PA_PORT_AVAILABLE_UNKNOWN
      then new_source_ports_loop ports
             (g_hash_table_insert tbl (port_name port) (port_available port))
      else new_source_ports_loop ports tbl)"

definition process_new_source :: "CadPulse \<Rightarrow> pa_source_info \<Rightarrow> CadPulse" where
  "process_new_source self info =
     (if (case pa_proplist_gets (source_info_proplist info) PA_PROP_DEVICE_CLASS of
            Some prop \<Rightarrow> prop \<noteq> SINK_CLASS | None \<Rightarrow> False)
      then self
      else if source_info_card info \<noteq> card_id self \<or> source_id self \<noteq> - 1
      then self
      else self\<lparr>source_is_droid :=
                   (pa_proplist_gets (source_info_proplist info) PA_PROP_DEVICE_API
                      = Some DROID_API_NAME),
                 source_id := source_info_index info,
                 source_ports := new_source_ports_loop (source_info_ports info) (Some Map.empty)\<rparr>)"

definition init_source_info ::
  "pa_context \<Rightarrow> CadPulse \<Rightarrow> pa_source_info option \<Rightarrow> int \<Rightarrow> CadPulse \<times> effect list" where
  "init_source_info ctx self info eol =
     (if eol \<noteq> 0 then (self, [])
      else case info of
        None \<Rightarrow> (self, [])
      | Some i \<Rightarrow>
          (let self' = process_new_source self i in
           if sint (source_id self') < 0 then (self', [])
           else (case get_available_source_port i None (source_is_droid self') of
                   Some target_port \<Rightarrow>
                     (self', issue ctx (Set_source_port_by_index (source_id self') target_port None))
                 | None \<Rightarrow> (self', []))))"

definition change_sink_info ::
  "pa_context \<Rightarrow> CadPulse \<Rightarrow> pa_sink_info option \<Rightarrow> int \<Rightarrow> CadPulse \<times> effect list" where
  "change_sink_info ctx self info eol =
     (if eol \<noteq> 0 then (self, [])
      else case info of
        None \<Rightarrow> (self, [])
      | Some i \<Rightarrow>
          if sink_info_index i \<noteq> sink_id self then (self, [])
          else
            (case change_ports_loop (sink_info_ports i) (sink_ports self) False of
               (tbl, change) \<Rightarrow>
                 (self\<lparr>sink_ports := tbl\<rparr>,
                  if change
                  then (case get_available_sink_port i None (source_is_droid self) of
                          Some target_port \<Rightarrow>
                            issue ctx (Set_sink_port_by_index (sink_id self) target_port None)
                        | None \<Rightarrow> [])
                  else [])))"

text \<open>
  The loop of \<^verbatim>\<open>process_new_sink\<close> (lines 392-416). Both arms of the test on the old
  \<^verbatim>\<open>speaker_port\<close> leave the port's name in it.
\<close>

fun new_sink_ports_loop :: "string \<Rightarrow> pa_port_info list \<Rightarrow> CadPulse \<Rightarrow> CadPulse" where
  "new_sink_ports_loop dev_speaker [] self = self"
| "new_sink_ports_loop dev_speaker (port # ports) self =
     (let self1 =
            (if (sink_is_droid self \<and> port_name port = DROID_OUTPUT_PORT_SPEAKER)
                \<or> (\<not> sink_is_droid self \<and> strstr (port_name port) dev_speaker)
             then self\<lparr>speaker_port := Some (port_name port)\<rparr>
             else self);
          self2 =
            (if port_available port \<noteq> PA_PORT_AVAILABLE_UNKNOWN
             then self1\<lparr>sink_ports :=
                         g_hash_table_insert (sink_ports self1) (port_name port)
                           (port_available port)\<rparr>
             else self1)
      in new_sink_ports_loop dev_speaker ports self2)"

definition process_new_sink :: "alsa_use_case \<Rightarrow> CadPulse \<Rightarrow> pa_sink_info \<Rightarrow> CadPulse" where
  "process_new_sink ucm self info =
     (if (case pa_proplist_gets (sink_info_proplist info) PA_PROP_DEVICE_CLASS of
            Some prop \<Rightarrow> prop \<noteq> SINK_CLASS | None \<Rightarrow> False)
      then self
      else if sink_info_card info \<noteq> card_id self \<or> sink_id self \<noteq> - 1
      then self
      else new_sink_ports_loop (SND_USE_CASE_DEV_SPEAKER ucm) (sink_info_ports info)
             (self\<lparr>sink_is_droid :=
                      (pa_proplist_gets (sink_info_proplist info) PA_PROP_DEVICE_API
                         = Some DROID_API_NAME),
                    sink_id := sink_info_index info,
                    sink_ports := Some Map.empty\<rparr>))"

definition init_sink_info ::
  "alsa_use_case \<Rightarrow> pa_context \<Rightarrow> CadPulse \<Rightarrow> pa_sink_info option \<Rightarrow> int
     \<Rightarrow> CadPulse \<times> effect list" where
  "init_sink_info ucm ctx self info eol =
     (if eol \<noteq> 0 then (self, [])
      else case info of
        None \<Rightarrow> (self, [])
      | Some i \<Rightarrow>
          (let self' = process_new_sink ucm self i in
           if sint (sink_id self') < 0 then (self', [])
           else (case get_available_sink_port i None (source_is_droid self') of
                   Some target_port \<Rightarrow>
                     (self', issue ctx (Set_sink_port_by_index (sink_id self') target_port None))
                 | None \<Rightarrow> (self', []))))"

text \<open>
  \<^verbatim>\<open>init_card_info\<close> (lines 460-502). The loop over the profiles only ever sets
  \<^verbatim>\<open>has_voice_profile\<close>.
\<close>

definition init_card_info ::
  "alsa_use_case \<Rightarrow> pa_context \<Rightarrow> CadPulse \<Rightarrow> pa_card_info option \<Rightarrow> int
     \<Rightarrow> CadPulse \<times> effect list" where
  "init_card_info ucm ctx self info eol =
     (if eol \<noteq> 0 then (self, [])
      else case info of
        None \<Rightarrow> (self, [])
      | Some i \<Rightarrow>
          if (case pa_proplist_gets (card_info_proplist i) PA_PROP_DEVICE_BUS_PATH of
                Some prop \<Rightarrow> \<not> g_str_has_prefix prop CARD_BUS_PATH_PREFIX | None \<Rightarrow> False)
          then (self, [])
          else if (case pa_proplist_gets (card_info_proplist i) PA_PROP_DEVICE_FORM_FACTOR of
                     Some prop \<Rightarrow> prop \<noteq> CARD_FORM_FACTOR | None \<Rightarrow> False)
          then (self, [])
          else if (case pa_proplist_gets (card_info_proplist i) PA_PROP_DEVICE_CLASS of
                     Some prop \<Rightarrow> prop = CARD_MODEM_CLASS | None \<Rightarrow> False)
          then (self, [])
          else
            (let self' = self\<lparr>card_id := card_info_index i\<rparr> in
             if list_ex (\<lambda>profile.
                    strstr (profile_name profile) (SND_USE_CASE_VERB_VOICECALL ucm)
                    \<or> strstr (profile_name profile) DROID_PROFILE_VOICECALL)
                  (card_info_profiles2 i)
             then (self'\<lparr>has_voice_profile := True\<rparr>, [])
             else (self', [])))"

text \<open>
  \<^verbatim>\<open>init_module_info\<close> (lines 511-533). The unload is between \<^verbatim>\<open>#ifndef
  WITH_DROID_SUPPORT\<close> and \<^verbatim>\<open>#endif\<close>, so the function is given for both builds, the
  first argument telling whether the macro is defined; line 31 defines it.
\<close>

definition WITH_DROID_SUPPORT :: bool where
  "WITH_DROID_SUPPORT = True"

definition init_module_info_build ::
  "bool \<Rightarrow> pa_context \<Rightarrow> CadPulse \<Rightarrow> pa_module_info option \<Rightarrow> int \<Rightarrow> CadPulse \<times> effect list"
where
  "init_module_info_build with_droid_support ctx self info eol =
     (if eol \<noteq> 0 then (self, [])
      else case info of
        None \<Rightarrow> (self, [])
      | Some i \<Rightarrow>
          if \<not> with_droid_support
             \<and> module_info_name i = ''module-switch-on-port-available''
          then (self, issue ctx (Unload_module (module_info_index i)))
          else (self, []))"

definition init_module_info ::
  "pa_context \<Rightarrow> CadPulse \<Rightarrow> pa_module_info option \<Rightarrow> int \<Rightarrow> CadPulse \<times> effect list" where
  "init_module_info = init_module_info_build WITH_DROID_SUPPORT"

definition init_pulseaudio_objects :: "pa_context \<Rightarrow> CadPulse \<Rightarrow> CadPulse \<times> effect list" where
  "init_pulseaudio_objects ctx self =
     (self\<lparr>card_id := - 1, sink_id := - 1, source_id := - 1,
            sink_ports := None, source_ports := None\<rparr>,
      issue ctx (Get_card_info_list Init_card_info)
      @ issue ctx Get_module_info_list
      @ issue ctx (Get_sink_info_list Init_sink_info)
      @ issue ctx (Get_source_info_list Init_source_info))"

text \<open>
  \<^verbatim>\<open>changed_cb\<close> (lines 556-620) on an event whose facility and kind are already taken
  out of the bit mask; a facility the \<^verbatim>\<open>switch\<close> has no case for is \<open>Other_facility\<close>.
\<close>

datatype facility = Sink_facility | Source_facility | Card_facility | Other_facility
datatype kind = Event_new | Event_change | Event_remove

definition changed_cb ::
  "pa_context \<Rightarrow> CadPulse \<Rightarrow> facility \<Rightarrow> kind \<Rightarrow> uint32_t \<Rightarrow> CadPulse \<times> effect list" where
  "changed_cb ctx self fac knd idx =
     (case fac of
        Sink_facility \<Rightarrow>
          if idx = sink_id self \<and> knd = Event_remove
          then (self\<lparr>sink_id := - 1, sink_ports := None\<rparr>, [])
          else if knd = Event_new
          then (self, issue ctx (Get_sink_info_by_index idx Init_sink_info None))
          else (self, [])
      | Source_facility \<Rightarrow>
          if idx = source_id self \<and> knd = Event_remove
          then (self\<lparr>source_id := - 1, source_ports := None\<rparr>, [])
          else if knd = Event_new
          then (self, issue ctx (Get_source_info_by_index idx Init_source_info None))
          else (self, [])
      | Card_facility \<Rightarrow>
          if idx = card_id self \<and> knd = Event_change
          then (self,
                (if \<not> sink_is_droid self \<and> sink_id self \<noteq> - 1
                 then issue ctx (Get_sink_info_by_index (sink_id self) Change_sink_info None)
                 else [])
                @ (if \<not> source_is_droid self \<and> source_id self \<noteq> - 1
                   then issue ctx
                          (Get_source_info_by_index (source_id self) Change_source_info None)
                   else []))
          else (self, [])
      | Other_facility \<Rightarrow> (self, []))"

subsection \<open>Commands (lines 756-1240)\<close>

text \<open>
  \<^verbatim>\<open>operation_complete_cb\<close> (lines 756-775): the only place of the file that writes
  \<^verbatim>\<open>current_mode\<close>. The user's handle is called with \<^verbatim>\<open>success\<close> already stored.
\<close>

definition operation_complete_cb ::
  "pa_context \<Rightarrow> CadPulse \<Rightarrow> int \<Rightarrow> CadPulseOperation option \<Rightarrow> CadPulse \<times> effect list" where
  "operation_complete_cb ctx self success data =
     (case data of
        None \<Rightarrow> (self, [])
      | Some operation \<Rightarrow>
          (case operation_op operation of
             None \<Rightarrow> (self, [])
           | Some cad_op \<Rightarrow>
               (let cad_op' = cad_op\<lparr>op_success := (success \<noteq> 0)\<rparr> in
                (if op_type cad_op' = CAD_OPERATION_SELECT_MODE \<and> op_success cad_op'
                 then self\<lparr>current_mode := operation_value operation\<rparr>
                 else self,
                 [Completion cad_op']))))"

text \<open>
  The four droid callbacks (lines 778-863). Each reads \<^verbatim>\<open>operation->pulse\<close> first, so
  \<^verbatim>\<open>NULL\<close> user data is a fault; none of them reads \<^verbatim>\<open>success\<close>, except that
  \<^verbatim>\<open>droid_mode_change_complete_cb\<close> hands it on when the sink is not a droid one.
\<close>

definition droid_source_parked_complete_cb ::
  "pa_context \<Rightarrow> CadPulse \<Rightarrow> int \<Rightarrow> CadPulseOperation option \<Rightarrow> outcome" where
  "droid_source_parked_complete_cb ctx self success data =
     (case data of
        None \<Rightarrow> Inl Null_dereference
      | Some operation \<Rightarrow>
          Inr (self, issue ctx
                 (Get_sink_info_by_index (sink_id self) Set_output_port (Some operation))))"

definition droid_sink_parked_complete_cb ::
  "pa_context \<Rightarrow> CadPulse \<Rightarrow> int \<Rightarrow> CadPulseOperation option \<Rightarrow> outcome" where
  "droid_sink_parked_complete_cb ctx self success data =
     (case data of
        None \<Rightarrow> Inl Null_dereference
      | Some operation \<Rightarrow>
          Inr (self, issue ctx
                 (Set_source_port_by_index (source_id self) DROID_INPUT_PORT_PARKING
                    (Some (Droid_source_parked_complete_cb, operation)))))"

definition droid_mode_change_complete_cb ::
  "pa_context \<Rightarrow> CadPulse \<Rightarrow> int \<Rightarrow> CadPulseOperation option \<Rightarrow> outcome" where
  "droid_mode_change_complete_cb ctx self success data =
     (case data of
        None \<Rightarrow> Inl Null_dereference
      | Some operation \<Rightarrow>
          if \<not> sink_is_droid self
          then Inr (operation_complete_cb ctx self success data)
          else Inr (self, issue ctx
                      (Set_sink_port_by_index (sink_id self) DROID_OUTPUT_PORT_PARKING
                         (Some (Droid_sink_parked_complete_cb, operation)))))"

definition droid_output_port_change_complete_cb ::
  "pa_context \<Rightarrow> CadPulse \<Rightarrow> int \<Rightarrow> CadPulseOperation option \<Rightarrow> outcome" where
  "droid_output_port_change_complete_cb ctx self success data =
     (case data of
        None \<Rightarrow> Inl Null_dereference
      | Some operation \<Rightarrow>
          Inr (self, issue ctx
                 (Get_source_info_by_index (source_id self) Set_input_port (Some operation))))"

text \<open>
  The tail shared by the four step handlers (lines 913-918, 991-996, 1029-1034 and
  1063-1068): \<^verbatim>\<open>op\<close> is the handle of the request if one was sent, and without one the
  operation completes with success.
\<close>

definition request_or_complete ::
  "pa_context \<Rightarrow> CadPulse \<Rightarrow> CadPulseOperation \<Rightarrow> pa_request option \<Rightarrow> CadPulse \<times> effect list"
where
  "request_or_complete ctx self operation req =
     (case req of
        Some r \<Rightarrow>
          if ctx then (self, [Request r])
          else operation_complete_cb ctx self 1 (Some operation)
      | None \<Rightarrow> operation_complete_cb ctx self 1 (Some operation))"

text \<open>\<^verbatim>\<open>set_card_profile\<close> (lines 865-919).\<close>

definition set_card_profile ::
  "alsa_use_case \<Rightarrow> pa_context \<Rightarrow> CadPulse \<Rightarrow> pa_card_info option \<Rightarrow> int
     \<Rightarrow> CadPulseOperation option \<Rightarrow> outcome" where
  "set_card_profile ucm ctx self info eol data =
     (if eol \<noteq> 0 then Inr (self, [])
      else case info of
        None \<Rightarrow> Inr (self, [])
      | Some i \<Rightarrow>
          (case data of
             None \<Rightarrow> Inl Null_dereference
           | Some operation \<Rightarrow>
               if card_info_index i \<noteq> card_id self then Inr (self, [])
               else
                 (let default_profile =
                        (if sink_is_droid self then DROID_PROFILE_HIFI
                         else SND_USE_CASE_VERB_HIFI ucm);
                      voicecall_profile =
                        (if sink_is_droid self then DROID_PROFILE_VOICECALL
                         else SND_USE_CASE_VERB_VOICECALL ucm);
                      complete_callback = Droid_mode_change_complete_cb
                  in case card_info_active_profile2 i of
                       None \<Rightarrow> Inl Null_dereference
                     | Some profile \<Rightarrow>
                         Inr (request_or_complete ctx self operation
                           (if profile_name profile = voicecall_profile
                               \<and> operation_value operation = 0
                            then Some (Set_card_profile_by_index (card_id self)
                                         default_profile complete_callback operation)
                            else if profile_name profile = default_profile
                                    \<and> operation_value operation = 1
                            then Some (Set_card_profile_by_index (card_id self)
                                         voicecall_profile complete_callback operation)
                            else None)))))"

text \<open>
  The target of \<^verbatim>\<open>set_output_port\<close> (lines 945-980); \<^verbatim>\<open>operation->op->type\<close> is read
  by the caller. All three calls of the selector pass \<^verbatim>\<open>source_is_droid\<close>.
\<close>

definition output_target_port ::
  "CadPulse \<Rightarrow> CadOperation \<Rightarrow> CadPulseOperation \<Rightarrow> pa_sink_info \<Rightarrow> string option" where
  "output_target_port self cad_op operation info =
     (if op_type cad_op = CAD_OPERATION_SELECT_MODE
      then (if operation_value operation = CALL_AUDIO_MODE_CALL
            then get_available_sink_port info (speaker_port self) (source_is_droid self)
            else get_available_sink_port info None (source_is_droid self))
      else (if operation_value operation \<noteq> 0
            then speaker_port self
            else get_available_sink_port info (speaker_port self) (source_is_droid self)))"

text \<open>
  \<^verbatim>\<open>set_output_port\<close> (lines 921-997). Line 982 reads \<^verbatim>\<open>info->active_port->name\<close> and
  line 984 hands \<^verbatim>\<open>target_port\<close> to \<^verbatim>\<open>strcmp\<close>, neither after a test for \<^verbatim>\<open>NULL\<close>.
\<close>

definition set_output_port ::
  "pa_context \<Rightarrow> CadPulse \<Rightarrow> pa_sink_info option \<Rightarrow> int \<Rightarrow> CadPulseOperation option
     \<Rightarrow> outcome" where
  "set_output_port ctx self info eol data =
     (let complete_callback = Droid_output_port_change_complete_cb in
      if eol \<noteq> 0 then Inr (self, [])
      else case info of
        None \<Rightarrow> Inr (self, [])
      | Some i \<Rightarrow>
          (case data of
             None \<Rightarrow> Inl Null_dereference
           | Some operation \<Rightarrow>
               if sink_info_card i \<noteq> card_id self \<or> sink_info_index i \<noteq> sink_id self
               then Inr (self, [])
               else
                 (case operation_op operation of
                    None \<Rightarrow> Inl Null_dereference
                  | Some cad_op \<Rightarrow>
                      (case sink_info_active_port i of
                         None \<Rightarrow> Inl Null_dereference
                       | Some active_port \<Rightarrow>
                           (case output_target_port self cad_op operation i of
                              None \<Rightarrow> Inl Null_dereference
                            | Some target_port \<Rightarrow>
                                Inr (request_or_complete ctx self operation
                                  (if port_name active_port \<noteq> target_port
                                   then Some (Set_sink_port_by_index (sink_id self) target_port
                                                (Some (complete_callback, operation)))
                                   else None)))))))"

text \<open>\<^verbatim>\<open>set_input_port\<close> (lines 999-1035); \<^verbatim>\<open>g_error\<close> on a missing payload aborts.\<close>

definition set_input_port ::
  "pa_context \<Rightarrow> CadPulse \<Rightarrow> pa_source_info option \<Rightarrow> int \<Rightarrow> CadPulseOperation option
     \<Rightarrow> outcome" where
  "set_input_port ctx self info eol data =
     (if eol \<noteq> 0 then Inr (self, [])
      else case info of
        None \<Rightarrow> Inl Fatal_error
      | Some i \<Rightarrow>
          (case data of
             None \<Rightarrow> Inl Null_dereference
           | Some operation \<Rightarrow>
               if source_info_card i \<noteq> card_id self \<or> source_info_index i \<noteq> source_id self
               then Inr (self, [])
               else
                 (case source_info_active_port i of
                    None \<Rightarrow> Inl Null_dereference
                  | Some active_port \<Rightarrow>
                      (case get_available_source_port i None (source_is_droid self) of
                         None \<Rightarrow> Inl Null_dereference
                       | Some target_port \<Rightarrow>
                           Inr (request_or_complete ctx self operation
                             (if port_name active_port \<noteq> target_port
                              then Some (Set_source_port_by_index (source_id self) target_port
                                           (Some (Operation_complete_cb, operation)))
                              else None))))))"

text \<open>\<^verbatim>\<open>set_mic_mute\<close> (lines 1037-1069).\<close>

definition set_mic_mute ::
  "pa_context \<Rightarrow> CadPulse \<Rightarrow> pa_source_info option \<Rightarrow> int \<Rightarrow> CadPulseOperation option
     \<Rightarrow> outcome" where
  "set_mic_mute ctx self info eol data =
     (if eol \<noteq> 0 then Inr (self, [])
      else case info of
        None \<Rightarrow> Inr (self, [])
      | Some i \<Rightarrow>
          (case data of
             None \<Rightarrow> Inl Null_dereference
           | Some operation \<Rightarrow>
               if source_info_card i \<noteq> card_id self \<or> source_info_index i \<noteq> source_id self
               then Inr (self, [])
               else Inr (request_or_complete ctx self operation
                      (if source_info_mute i \<and> operation_value operation = 0
                       then Some (Set_source_mute_by_index (source_id self) False
                                    Operation_complete_cb operation)
                       else if \<not> source_info_mute i \<and> operation_value operation \<noteq> 0
                       then Some (Set_source_mute_by_index (source_id self) True
                                    Operation_complete_cb operation)
                       else None))))"

text \<open>
  The label \<^verbatim>\<open>error:\<close> of the three entry points: the handle is called with failure
  when there is an operation to call it on.
\<close>

definition intent_error :: "CadPulse \<Rightarrow> CadOperation option \<Rightarrow> CadPulse \<times> effect list" where
  "intent_error self cad_op =
     (case cad_op of
        None \<Rightarrow> (self, [])
      | Some c \<Rightarrow> (self, [Completion (c\<lparr>op_success := False\<rparr>)]))"

text \<open>
  \<^verbatim>\<open>cad_pulse_select_mode\<close> (lines 1077-1148). \<^verbatim>\<open>g_new\<close> does not return \<^verbatim>\<open>NULL\<close>.
  The auxiliary \<^verbatim>\<open>unmute_op\<close> comes from \<^verbatim>\<open>g_new0\<close>, so its \<^verbatim>\<open>op\<close> is \<^verbatim>\<open>NULL\<close>.
\<close>

definition unmute_op :: CadPulseOperation where
  "unmute_op = \<lparr>operation_op = None, operation_value = 0\<rparr>"

definition cad_pulse_select_mode ::
  "pa_context \<Rightarrow> CadPulse \<Rightarrow> guint \<Rightarrow> CadOperation option \<Rightarrow> outcome" where
  "cad_pulse_select_mode ctx self mode cad_op =
     (case cad_op of
        None \<Rightarrow> Inr (intent_error self cad_op)
      | Some c \<Rightarrow>
          if op_type c \<noteq> CAD_OPERATION_SELECT_MODE then Inl Assertion_failed
          else
            (let operation = \<lparr>operation_op = Some c, operation_value = mode\<rparr>;
                 unmute =
                   (if mode \<noteq> CALL_AUDIO_MODE_CALL
                    then issue ctx
                           (Get_source_info_by_index (source_id self) Set_mic_mute
                              (Some unmute_op))
                    else [])
             in if has_voice_profile self
                then Inr (self,
                       unmute @ issue ctx
                         (Get_card_info_by_index (card_id self) Set_card_profile (Some operation)))
                else if sint (sink_id self) < 0
                then Inr (self, unmute @ snd (intent_error self cad_op))
                else Inr (self,
                       unmute @ issue ctx
                         (Get_sink_info_by_index (sink_id self) Set_output_port
                            (Some operation)))))"

text \<open>\<^verbatim>\<open>cad_pulse_enable_speaker\<close> (lines 1150-1194).\<close>

definition cad_pulse_enable_speaker ::
  "pa_context \<Rightarrow> CadPulse \<Rightarrow> bool \<Rightarrow> CadOperation option \<Rightarrow> outcome" where
  "cad_pulse_enable_speaker ctx self enable cad_op =
     (case cad_op of
        None \<Rightarrow> Inr (intent_error self cad_op)
      | Some c \<Rightarrow>
          if op_type c \<noteq> CAD_OPERATION_ENABLE_SPEAKER then Inl Assertion_failed
          else if sint (sink_id self) < 0 then Inr (intent_error self cad_op)
          else
            (let operation =
                   \<lparr>operation_op = Some c, operation_value = (if enable then 1 else 0)\<rparr>
             in Inr (self, issue ctx
                       (Get_sink_info_by_index (sink_id self) Set_output_port
                          (Some operation)))))"

text \<open>\<^verbatim>\<open>cad_pulse_mute_mic\<close> (lines 1196-1240).\<close>

definition cad_pulse_mute_mic ::
  "pa_context \<Rightarrow> CadPulse \<Rightarrow> bool \<Rightarrow> CadOperation option \<Rightarrow> outcome" where
  "cad_pulse_mute_mic ctx self mute cad_op =
     (case cad_op of
        None \<Rightarrow> Inr (intent_error self cad_op)
      | Some c \<Rightarrow>
          if op_type c \<noteq> CAD_OPERATION_MUTE_MIC then Inl Assertion_failed
          else if sint (source_id self) < 0 then Inr (intent_error self cad_op)
          else
            (let operation =
                   \<lparr>operation_op = Some c, operation_value = (if mute then 1 else 0)\<rparr>
             in Inr (self, issue ctx
                       (Get_source_info_by_index (source_id self) Set_mic_mute
                          (Some operation)))))"

subsection \<open>The event loop\<close>

text \<open>
  Everything runs in one loop (section 5 of the specification): a user's intent, a
  reply of the server to a request, a subscription event, or the context becoming ready.
  A reply names the callback that was registered with the request and carries its user
  data. \<open>dispatch\<close> calls the function of the file that the loop would call.
\<close>

datatype loop_event =
  Select_mode guint "CadOperation option"
| Enable_speaker bool "CadOperation option"
| Mute_mic bool "CadOperation option"
| Success_reply pa_context_success_cb_t int "CadPulseOperation option"
| Card_info_reply pa_card_info_cb_t "pa_card_info option" int "CadPulseOperation option"
| Sink_info_reply pa_sink_info_cb_t "pa_sink_info option" int "CadPulseOperation option"
| Source_info_reply pa_source_info_cb_t "pa_source_info option" int "CadPulseOperation option"
| Module_info_reply "pa_module_info option" int
| Subscription_event facility kind uint32_t
| Context_ready

fun dispatch :: "alsa_use_case \<Rightarrow> pa_context \<Rightarrow> CadPulse \<Rightarrow> loop_event \<Rightarrow> outcome" where
  "dispatch ucm ctx self (Select_mode mode cad_op) = cad_pulse_select_mode ctx self mode cad_op"
| "dispatch ucm ctx self (Enable_speaker enable cad_op) =
     cad_pulse_enable_speaker ctx self enable cad_op"
| "dispatch ucm ctx self (Mute_mic mute cad_op) = cad_pulse_mute_mic ctx self mute cad_op"
| "dispatch ucm ctx self (Success_reply Operation_complete_cb success data) =
     Inr (operation_complete_cb ctx self success data)"
| "dispatch ucm ctx self (Success_reply Droid_source_parked_complete_cb success data) =
     droid_source_parked_complete_cb ctx self success data"
| "dispatch ucm ctx self (Success_reply Droid_sink_parked_complete_cb success data) =
     droid_sink_parked_complete_cb ctx self success data"
| "dispatch ucm ctx self (Success_reply Droid_mode_change_complete_cb success data) =
     droid_mode_change_complete_cb ctx self success data"
| "dispatch ucm ctx self (Success_reply Droid_output_port_change_complete_cb success data) =
     droid_output_port_change_complete_cb ctx self success data"
| "dispatch ucm ctx self (Card_info_reply Init_card_info info eol data) =
     Inr (init_card_info ucm ctx self info eol)"
| "dispatch ucm ctx self (Card_info_reply Set_card_profile info eol data) =
     set_card_profile ucm ctx self info eol data"
| "dispatch ucm ctx self (Sink_info_reply Init_sink_info info eol data) =
     Inr (init_sink_info ucm ctx self info eol)"
| "dispatch ucm ctx self (Sink_info_reply Change_sink_info info eol data) =
     Inr (change_sink_info ctx self info eol)"
| "dispatch ucm ctx self (Sink_info_reply Set_output_port info eol data) =
     set_output_port ctx self info eol data"
| "dispatch ucm ctx self (Source_info_reply Init_source_info info eol data) =
     Inr (init_source_info ctx self info eol)"
| "dispatch ucm ctx self (Source_info_reply Change_source_info info eol data) =
     Inr (change_source_info ctx self info eol)"
| "dispatch ucm ctx self (Source_info_reply Set_input_port info eol data) =
     set_input_port ctx self info eol data"
| "dispatch ucm ctx self (Source_info_reply Set_mic_mute info eol data) =
     set_mic_mute ctx self info eol data"
| "dispatch ucm ctx self (Module_info_reply info eol) =
     Inr (init_module_info ctx self info eol)"
| "dispatch ucm ctx self (Subscription_event fac knd idx) =
     Inr (changed_cb ctx self fac knd idx)"
| "dispatch ucm ctx self Context_ready = Inr (init_pulseaudio_objects ctx self)"

text \<open>The user data of a reply, and whether a handler's effects complete a mode selection
  with success.\<close>

fun user_data :: "loop_event \<Rightarrow> CadPulseOperation option" where
  "user_data (Success_reply cb success data) = data"
| "user_data (Card_info_reply cb info eol data) = data"
| "user_data (Sink_info_reply cb info eol data) = data"
| "user_data (Source_info_reply cb info eol data) = data"
| "user_data ev = None"

fun select_mode_success :: "effect \<Rightarrow> bool" where
  "select_mode_success (Completion c) =
     (op_type c = CAD_OPERATION_SELECT_MODE \<and> op_success c)"
| "select_mode_success (Request r) = False"

text \<open>
  The frame condition on \<^verbatim>\<open>current_mode\<close> for one run of a handler with user data
  \<open>data\<close>: if the handler completed a mode selection with success, the mode is the
  value the operation carries; if it did not, the mode is what it was.
\<close>

definition mode_frame ::
  "CadPulse \<Rightarrow> CadPulseOperation option \<Rightarrow> CadPulse \<times> effect list \<Rightarrow> bool" where
  "mode_frame self data res =
     (if list_ex select_mode_success (snd res)
      then (case data of Some operation \<Rightarrow> current_mode (fst res) = operation_value operation
            | None \<Rightarrow> False)
      else current_mode (fst res) = current_mode self)"

text \<open>
  The operation a request carries as user data, and the requests among a handler's
  effects.
\<close>

fun request_data :: "pa_request \<Rightarrow> CadPulseOperation option" where
  "request_data (Set_card_profile_by_index idx name cb operation) = Some operation"
| "request_data (Set_sink_port_by_index idx name cbd) = map_option snd cbd"
| "request_data (Set_source_port_by_index idx name cbd) = map_option snd cbd"
| "request_data (Set_source_mute_by_index idx mute cb operation) = Some operation"
| "request_data (Get_card_info_by_index idx cb data) = data"
| "request_data (Get_sink_info_by_index idx cb data) = data"
| "request_data (Get_source_info_by_index idx cb data) = data"
| "request_data r = None"

fun sent :: "effect list \<Rightarrow> pa_request list" where
  "sent [] = []"
| "sent (Request r # effs) = r # sent effs"
| "sent (Completion c # effs) = sent effs"

text \<open>
  A reply answers a request when it calls the callback the request registered, with the
  user data the request registered; a list request calls its callback with the
  \<^verbatim>\<open>CadPulse\<close> itself. Requests sent with \<^verbatim>\<open>NULL\<close> for the callback are never
  answered.
\<close>

fun answers :: "pa_request \<Rightarrow> loop_event \<Rightarrow> bool" where
  "answers (Set_card_profile_by_index idx name cb operation) (Success_reply cb' success data) =
     (cb' = cb \<and> data = Some operation)"
| "answers (Set_sink_port_by_index idx name (Some (cb, operation))) (Success_reply cb' success data) =
     (cb' = cb \<and> data = Some operation)"
| "answers (Set_source_port_by_index idx name (Some (cb, operation))) (Success_reply cb' success data) =
     (cb' = cb \<and> data = Some operation)"
| "answers (Set_source_mute_by_index idx mute cb operation) (Success_reply cb' success data) =
     (cb' = cb \<and> data = Some operation)"
| "answers (Get_card_info_list cb) (Card_info_reply cb' info eol data) =
     (cb' = cb \<and> data = None)"
| "answers (Get_card_info_by_index idx cb data0) (Card_info_reply cb' info eol data) =
     (cb' = cb \<and> data = data0)"
| "answers (Get_sink_info_list cb) (Sink_info_reply cb' info eol data) =
     (cb' = cb \<and> data = None)"
| "answers (Get_sink_info_by_index idx cb data0) (Sink_info_reply cb' info eol data) =
     (cb' = cb \<and> data = data0)"
| "answers (Get_source_info_list cb) (Source_info_reply cb' info eol data) =
     (cb' = cb \<and> data = None)"
| "answers (Get_source_info_by_index idx cb data0) (Source_info_reply cb' info eol data) =
     (cb' = cb \<and> data = data0)"
| "answers Get_module_info_list (Module_info_reply info eol) = True"
| "answers r ev = False"

fun is_reply :: "loop_event \<Rightarrow> bool" where
  "is_reply (Success_reply cb success data) = True"
| "is_reply (Card_info_reply cb info eol data) = True"
| "is_reply (Sink_info_reply cb info eol data) = True"
| "is_reply (Source_info_reply cb info eol data) = True"
| "is_reply (Module_info_reply info eol) = True"
| "is_reply ev = False"

text \<open>
  A run of the loop from a back-end and the requests pending so far. An event is taken
  with the state of the context at that moment. A reply is taken only if one of the
  pending requests is answered by it (a pending request stays pending, since a list
  request is answered once per object); intents, subscription events and the context
  becoming ready are always taken. The run has no result when a handler faults.
\<close>

definition admissible :: "pa_request list \<Rightarrow> loop_event \<Rightarrow> bool" where
  "admissible pending ev = (if is_reply ev then list_ex (\<lambda>r. answers r ev) pending else True)"

fun run ::
  "alsa_use_case \<Rightarrow> CadPulse \<Rightarrow> pa_request list \<Rightarrow> (pa_context \<times> loop_event) list
     \<Rightarrow> (CadPulse \<times> pa_request list) option" where
  "run ucm self pending [] = Some (self, pending)"
| "run ucm self pending ((ctx, ev) # evs) =
     (if admissible pending ev
      then (case dispatch ucm ctx self ev of
              Inl f \<Rightarrow> None
            | Inr (self', effs) \<Rightarrow> run ucm self' (pending @ sent effs) evs)
      else None)"

text \<open>
  The operations an intent allocates: \<^verbatim>\<open>cad_pulse_select_mode\<close> its own (lines
  1096-1098) and the auxiliary one (lines 1104-1107), the two other entry points their
  own (lines 1176-1177 and 1222-1223), each after the assertion on the type.
\<close>

fun creates :: "loop_event \<Rightarrow> CadPulseOperation \<Rightarrow> bool" where
  "creates (Select_mode mode (Some c)) operation =
     (operation = unmute_op
      \<or> (op_type c = CAD_OPERATION_SELECT_MODE
         \<and> operation = \<lparr>operation_op = Some c, operation_value = mode\<rparr>))"
| "creates (Enable_speaker enable (Some c)) operation =
     (op_type c = CAD_OPERATION_ENABLE_SPEAKER
      \<and> operation = \<lparr>operation_op = Some c, operation_value = (if enable then 1 else 0)\<rparr>)"
| "creates (Mute_mic mute (Some c)) operation =
     (op_type c = CAD_OPERATION_MUTE_MIC
      \<and> operation = \<lparr>operation_op = Some c, operation_value = (if mute then 1 else 0)\<rparr>)"
| "creates ev operation = False"

definition originated :: "(pa_context \<times> loop_event) list \<Rightarrow> CadPulseOperation \<Rightarrow> bool" where
  "originated evs operation = list_ex (\<lambda>(ctx, ev). creates ev operation) evs"

subsection \<open>Concrete objects for the examples\<close>

text \<open>The tokens as \<^verbatim>\<open>alsa/use-case.h\<close> defines them.\<close>

definition alsa_tokens :: alsa_use_case where
  "alsa_tokens = \<lparr>SND_USE_CASE_VERB_HIFI = ''HiFi'',
                   SND_USE_CASE_VERB_VOICECALL = ''Voice Call'',
                   SND_USE_CASE_DEV_SPEAKER = ''Speaker''\<rparr>"

definition mk_port :: "string \<Rightarrow> uint32_t \<Rightarrow> pa_port_available \<Rightarrow> pa_port_info" where
  "mk_port n p a = \<lparr>port_name = n, port_priority = p, port_available = a\<rparr>"

definition mk_sink :: "pa_port_info list \<Rightarrow> pa_port_info option \<Rightarrow> pa_sink_info" where
  "mk_sink ports active =
     \<lparr>sink_info_name = ''sink'', sink_info_index = 0, sink_info_card = 0,
      sink_info_proplist = Map.empty, sink_info_ports = ports,
      sink_info_active_port = active\<rparr>"

definition mk_source :: "pa_port_info list \<Rightarrow> pa_port_info option \<Rightarrow> pa_source_info" where
  "mk_source ports active =
     \<lparr>source_info_name = ''source'', source_info_index = 0, source_info_card = 0,
      source_info_proplist = Map.empty, source_info_mute = False,
      source_info_ports = ports, source_info_active_port = active\<rparr>"

text \<open>A back-end that tracks card 0, sink 0 and source 0, with the two flavor tags and
  the speaker port given.\<close>

definition mk_pulse :: "bool \<Rightarrow> bool \<Rightarrow> string option \<Rightarrow> CadPulse" where
  "mk_pulse sink_droid source_droid speaker =
     \<lparr>card_id = 0, sink_id = 0, source_id = 0,
      sink_is_droid = sink_droid, source_is_droid = source_droid,
      has_voice_profile = False, speaker_port = speaker,
      sink_ports = Some Map.empty, source_ports = Some Map.empty,
      current_mode = CALL_AUDIO_MODE_DEFAULT\<rparr>"

definition mk_operation :: "CadOperationType \<Rightarrow> guint \<Rightarrow> CadPulseOperation" where
  "mk_operation t v =
     \<lparr>operation_op = Some \<lparr>op_type = t, op_success = False\<rparr>, operation_value = v\<rparr>"

text \<open>Three cards: one without any property, the card of a phone, and a USB headset.\<close>

definition bare_card :: pa_card_info where
  "bare_card =
     \<lparr>card_info_name = ''card'', card_info_index = 3, card_info_proplist = Map.empty,
      card_info_profiles2 = [], card_info_active_profile2 = None\<rparr>"

definition phone_card :: pa_card_info where
  "phone_card =
     \<lparr>card_info_name = ''card'', card_info_index = 3,
      card_info_proplist =
        [''device.bus_path'' \<mapsto> ''platform-sound'', ''device.form_factor'' \<mapsto> ''internal''],
      card_info_profiles2 = [\<lparr>profile_name = ''HiFi''\<rparr>, \<lparr>profile_name = ''Voice Call''\<rparr>],
      card_info_active_profile2 = Some \<lparr>profile_name = ''HiFi''\<rparr>\<rparr>"

definition usb_card :: pa_card_info where
  "usb_card =
     \<lparr>card_info_name = ''card'', card_info_index = 4,
      card_info_proplist =
        [''device.bus_path'' \<mapsto> ''pci-0000:00:14.0-usb-0:2:1.0'',
         ''device.form_factor'' \<mapsto> ''headset''],
      card_info_profiles2 = [], card_info_active_profile2 = None\<rparr>"

definition switch_module :: pa_module_info where
  "switch_module =
     \<lparr>module_info_name = ''module-switch-on-port-available'', module_info_index = 7\<rparr>"

text \<open>
  A native sink with three ports and the given active port; a droid back-end on a card
  with a voice profile, its card and its sink; the operation of a mode selection for
  \<open>Call\<close>.
\<close>

definition native_sink :: "string \<Rightarrow> pa_sink_info" where
  "native_sink active =
     mk_sink [mk_port ''Earpiece'' 50 PA_PORT_AVAILABLE_YES,
              mk_port ''Speaker'' 60 PA_PORT_AVAILABLE_YES,
              mk_port ''Headphones'' 80 PA_PORT_AVAILABLE_YES]
       (Some (mk_port active 50 PA_PORT_AVAILABLE_YES))"

definition droid_pulse :: CadPulse where
  "droid_pulse = (mk_pulse True True (Some ''output-speaker''))\<lparr>has_voice_profile := True\<rparr>"

definition droid_card :: pa_card_info where
  "droid_card =
     \<lparr>card_info_name = ''droid_card'', card_info_index = 0, card_info_proplist = Map.empty,
      card_info_profiles2 = [\<lparr>profile_name = ''default''\<rparr>, \<lparr>profile_name = ''voicecall''\<rparr>],
      card_info_active_profile2 = Some \<lparr>profile_name = ''default''\<rparr>\<rparr>"

definition droid_sink :: pa_sink_info where
  "droid_sink =
     mk_sink [mk_port ''output-speaker'' 200 PA_PORT_AVAILABLE_YES,
              mk_port ''output-earpiece'' 100 PA_PORT_AVAILABLE_YES]
       (Some (mk_port ''output-earpiece'' 100 PA_PORT_AVAILABLE_YES))"

definition call_operation :: CadPulseOperation where
  "call_operation = mk_operation CAD_OPERATION_SELECT_MODE CALL_AUDIO_MODE_CALL"

text \<open>A droid sink with an earpiece, a speaker and a wired headset, parked.\<close>

definition droid_headset_sink :: pa_sink_info where
  "droid_headset_sink =
     mk_sink [mk_port ''output-earpiece'' 100 PA_PORT_AVAILABLE_YES,
              mk_port ''output-speaker'' 200 PA_PORT_AVAILABLE_YES,
              mk_port ''output-wired_headset'' 50 PA_PORT_AVAILABLE_YES]
       (Some (mk_port ''output-parking'' 0 PA_PORT_AVAILABLE_UNKNOWN))"

section \<open>Properties\<close>

lemmas droid_names =
  DROID_OUTPUT_PORT_PARKING_def DROID_OUTPUT_PORT_SPEAKER_def
  DROID_OUTPUT_PORT_EARPIECE_def DROID_OUTPUT_PORT_WIRED_HEADSET_def
  DROID_INPUT_PORT_PARKING_def DROID_INPUT_PORT_BUILTIN_MIC_def
  DROID_INPUT_PORT_WIRED_HEADSET_MIC_def DROID_PROFILE_HIFI_def
  DROID_PROFILE_VOICECALL_def DROID_API_NAME_def

lemmas example_defs =
  mk_port_def mk_sink_def mk_source_def mk_pulse_def mk_operation_def alsa_tokens_def
  CALL_AUDIO_MODE_DEFAULT_def CALL_AUDIO_MODE_CALL_def

subsection \<open>The port selectors\<close>

lemma sink_port_loop_sound:
  "sink_port_loop ports exclude d acc = Some p \<Longrightarrow>
     acc = Some p \<or> (p \<in> set ports \<and> \<not> port_skipped exclude p)"
  by (induction ports arbitrary: acc) (auto split: if_splits)

lemma source_port_loop_sound:
  "source_port_loop ports exclude d acc = Some p \<Longrightarrow>
     acc = Some p \<or> (p \<in> set ports \<and> \<not> port_skipped exclude p)"
  by (induction ports arbitrary: acc) (auto split: if_splits)

lemma not_skipped_iff:
  "\<not> port_skipped exclude p \<longleftrightarrow>
     port_available p \<noteq> PA_PORT_AVAILABLE_NO \<and> exclude \<noteq> Some (port_name p)"
  by (auto simp: port_skipped_def split: option.splits)

text \<open>
  Claim C1. Both selectors are functions of the port list, the exclusion and the flavor
  flag alone (two payloads with the same ports give the same answer), and the answer is
  either none or the name of a port of the list whose availability is not \<open>No\<close> and
  whose name is not the excluded one.
\<close>

theorem port_selectors_postcondition:
  "(sink_info_ports sink = sink_info_ports sink' \<longrightarrow>
      get_available_sink_port sink exclude d = get_available_sink_port sink' exclude d)
   \<and> (source_info_ports source = source_info_ports source' \<longrightarrow>
      get_available_source_port source exclude d = get_available_source_port source' exclude d)
   \<and> (get_available_sink_port sink exclude d = None
      \<or> (\<exists>p \<in> set (sink_info_ports sink).
            get_available_sink_port sink exclude d = Some (port_name p)
            \<and> port_available p \<noteq> PA_PORT_AVAILABLE_NO
            \<and> exclude \<noteq> Some (port_name p)))
   \<and> (get_available_source_port source exclude d = None
      \<or> (\<exists>p \<in> set (source_info_ports source).
            get_available_source_port source exclude d = Some (port_name p)
            \<and> port_available p \<noteq> PA_PORT_AVAILABLE_NO
            \<and> exclude \<noteq> Some (port_name p)))"
proof -
  have snk: "get_available_sink_port sink exclude d = None
      \<or> (\<exists>p \<in> set (sink_info_ports sink).
            get_available_sink_port sink exclude d = Some (port_name p)
            \<and> port_available p \<noteq> PA_PORT_AVAILABLE_NO
            \<and> exclude \<noteq> Some (port_name p))"
  proof (cases "sink_port_loop (sink_info_ports sink) exclude d None")
    case None
    then show ?thesis by (simp add: get_available_sink_port_def)
  next
    case (Some p)
    from sink_port_loop_sound [OF Some]
    have "p \<in> set (sink_info_ports sink)" and "\<not> port_skipped exclude p" by auto
    with Some show ?thesis
      by (auto simp: get_available_sink_port_def not_skipped_iff)
  qed
  have src: "get_available_source_port source exclude d = None
      \<or> (\<exists>p \<in> set (source_info_ports source).
            get_available_source_port source exclude d = Some (port_name p)
            \<and> port_available p \<noteq> PA_PORT_AVAILABLE_NO
            \<and> exclude \<noteq> Some (port_name p))"
  proof (cases "source_port_loop (source_info_ports source) exclude d None")
    case None
    then show ?thesis by (simp add: get_available_source_port_def)
  next
    case (Some p)
    from source_port_loop_sound [OF Some]
    have "p \<in> set (source_info_ports source)" and "\<not> port_skipped exclude p" by auto
    with Some show ?thesis
      by (auto simp: get_available_source_port_def not_skipped_iff)
  qed
  show ?thesis
    using snk src by (simp add: get_available_sink_port_def get_available_source_port_def)
qed

text \<open>
  The postcondition at a native sink and source with three ports each, the speaker
  excluded: the headphones, of the highest priority left, are the answer.
\<close>

theorem port_selectors_postcondition_witness:
  "get_available_sink_port
     (mk_sink [mk_port ''Earpiece'' 50 PA_PORT_AVAILABLE_UNKNOWN,
               mk_port ''Speaker'' 90 PA_PORT_AVAILABLE_YES,
               mk_port ''Headphones'' 80 PA_PORT_AVAILABLE_YES] None)
     (Some ''Speaker'') False = Some ''Headphones''
   \<and> (\<exists>p \<in> set [mk_port ''Earpiece'' 50 PA_PORT_AVAILABLE_UNKNOWN,
                  mk_port ''Speaker'' 90 PA_PORT_AVAILABLE_YES,
                  mk_port ''Headphones'' 80 PA_PORT_AVAILABLE_YES].
         port_name p = ''Headphones'' \<and> port_available p \<noteq> PA_PORT_AVAILABLE_NO)
   \<and> get_available_source_port
       (mk_source [mk_port ''Mic'' 50 PA_PORT_AVAILABLE_NO,
                   mk_port ''Headset'' 80 PA_PORT_AVAILABLE_YES] None)
       None False = Some ''Headset''"
  using port_selectors_postcondition
    [where sink = "mk_sink [mk_port ''Earpiece'' 50 PA_PORT_AVAILABLE_UNKNOWN,
                  mk_port ''Speaker'' 90 PA_PORT_AVAILABLE_YES,
                  mk_port ''Headphones'' 80 PA_PORT_AVAILABLE_YES] None"
       and source = "mk_source [mk_port ''Mic'' 50 PA_PORT_AVAILABLE_NO,
                    mk_port ''Headset'' 80 PA_PORT_AVAILABLE_YES] None"
       and exclude = "Some ''Speaker''" and d = False]
  by (simp add: get_available_sink_port_def get_available_source_port_def example_defs
        port_skipped_def higher_priority_def)

subsection \<open>Droid output ports\<close>

lemma droid_wired_headset_wins:
  "\<exists>p \<in> set ports. \<not> port_skipped exclude p \<and> port_name p = DROID_OUTPUT_PORT_WIRED_HEADSET \<Longrightarrow>
   \<exists>q. sink_port_loop ports exclude True acc = Some q
        \<and> port_name q = DROID_OUTPUT_PORT_WIRED_HEADSET"
  by (induction ports arbitrary: acc) auto

lemma droid_without_wired_headset:
  "\<forall>p \<in> set ports. \<not> port_skipped exclude p \<longrightarrow> port_name p \<noteq> DROID_OUTPUT_PORT_WIRED_HEADSET \<Longrightarrow>
   sink_port_loop ports exclude True acc =
     (case filter (\<lambda>p. \<not> port_skipped exclude p
                      \<and> (port_name p = DROID_OUTPUT_PORT_SPEAKER
                         \<or> port_name p = DROID_OUTPUT_PORT_EARPIECE)) ports of
        [] \<Rightarrow> acc
      | c # cs \<Rightarrow> Some (last (c # cs)))"
  by (induction ports arbitrary: acc) (auto split: list.splits)

text \<open>
  Claim C2, as stated, fails: with \<open>output-speaker\<close> first and \<open>output-earpiece\<close> second,
  both available and nothing excluded, the droid selection is \<open>output-earpiece\<close>.
\<close>

theorem droid_speaker_not_preferred_counterexample:
  "get_available_sink_port
     (mk_sink [mk_port ''output-speaker'' 200 PA_PORT_AVAILABLE_YES,
               mk_port ''output-earpiece'' 100 PA_PORT_AVAILABLE_YES] None)
     None True = Some DROID_OUTPUT_PORT_EARPIECE
   \<and> get_available_sink_port
     (mk_sink [mk_port ''output-speaker'' 200 PA_PORT_AVAILABLE_YES,
               mk_port ''output-earpiece'' 100 PA_PORT_AVAILABLE_YES] None)
     None True \<noteq> Some DROID_OUTPUT_PORT_SPEAKER"
  by (simp add: get_available_sink_port_def example_defs port_skipped_def droid_names)

text \<open>
  Claim C2, amended. For a droid-flavored output port selection: if a port named
  \<open>output-wired_headset\<close> is present and not skipped, it is selected; otherwise the
  selection is the last port of the list, in the order of the list, that is not skipped
  and is named \<open>output-speaker\<close> or \<open>output-earpiece\<close>, with no preference between the
  two names, and none when there is no such port.
\<close>

theorem droid_sink_port_selection:
  "((\<exists>p \<in> set (sink_info_ports sink).
        \<not> port_skipped exclude p \<and> port_name p = DROID_OUTPUT_PORT_WIRED_HEADSET)
      \<longrightarrow> get_available_sink_port sink exclude True = Some DROID_OUTPUT_PORT_WIRED_HEADSET)
   \<and> ((\<forall>p \<in> set (sink_info_ports sink).
        \<not> port_skipped exclude p \<longrightarrow> port_name p \<noteq> DROID_OUTPUT_PORT_WIRED_HEADSET)
      \<longrightarrow> get_available_sink_port sink exclude True =
          (case filter (\<lambda>p. \<not> port_skipped exclude p
                           \<and> (port_name p = DROID_OUTPUT_PORT_SPEAKER
                              \<or> port_name p = DROID_OUTPUT_PORT_EARPIECE))
                  (sink_info_ports sink) of
             [] \<Rightarrow> None
           | c # cs \<Rightarrow> Some (port_name (last (c # cs)))))"
proof (intro conjI impI)
  assume "\<exists>p \<in> set (sink_info_ports sink).
        \<not> port_skipped exclude p \<and> port_name p = DROID_OUTPUT_PORT_WIRED_HEADSET"
  from droid_wired_headset_wins [OF this, of None]
  show "get_available_sink_port sink exclude True = Some DROID_OUTPUT_PORT_WIRED_HEADSET"
    by (auto simp: get_available_sink_port_def)
next
  assume "\<forall>p \<in> set (sink_info_ports sink).
        \<not> port_skipped exclude p \<longrightarrow> port_name p \<noteq> DROID_OUTPUT_PORT_WIRED_HEADSET"
  from droid_without_wired_headset [OF this, of None]
  show "get_available_sink_port sink exclude True =
          (case filter (\<lambda>p. \<not> port_skipped exclude p
                           \<and> (port_name p = DROID_OUTPUT_PORT_SPEAKER
                              \<or> port_name p = DROID_OUTPUT_PORT_EARPIECE))
                  (sink_info_ports sink) of
             [] \<Rightarrow> None
           | c # cs \<Rightarrow> Some (port_name (last (c # cs))))"
    by (simp add: get_available_sink_port_def split: list.splits)
qed

text \<open>
  Both halves at concrete sinks: a wired headset that comes last is selected, and
  without one the earpiece that follows the speaker is.
\<close>

theorem droid_sink_port_selection_witness:
  "get_available_sink_port
     (mk_sink [mk_port ''output-speaker'' 200 PA_PORT_AVAILABLE_YES,
               mk_port ''output-wired_headset'' 100 PA_PORT_AVAILABLE_YES] None)
     None True = Some ''output-wired_headset''
   \<and> get_available_sink_port
     (mk_sink [mk_port ''output-speaker'' 200 PA_PORT_AVAILABLE_YES,
               mk_port ''output-earpiece'' 100 PA_PORT_AVAILABLE_YES] None)
     None True = Some ''output-earpiece''"
  using droid_sink_port_selection
    [of "mk_sink [mk_port ''output-speaker'' 200 PA_PORT_AVAILABLE_YES,
                  mk_port ''output-wired_headset'' 100 PA_PORT_AVAILABLE_YES] None" None]
    droid_sink_port_selection
    [of "mk_sink [mk_port ''output-speaker'' 200 PA_PORT_AVAILABLE_YES,
                  mk_port ''output-earpiece'' 100 PA_PORT_AVAILABLE_YES] None" None]
  by (simp add: example_defs port_skipped_def droid_names)

subsection \<open>Module discovery\<close>

text \<open>
  Claim C4, as stated, fails: in the source as configured, with a sink and a source that
  are both native, the module \<open>module-switch-on-port-available\<close> is reported and no
  unload request is sent.
\<close>

theorem native_module_not_unloaded_counterexample:
  "init_module_info True (mk_pulse False False (Some ''Speaker'')) (Some switch_module) 0
     = (mk_pulse False False (Some ''Speaker''), [])
   \<and> module_info_name switch_module = ''module-switch-on-port-available''
   \<and> sink_is_droid (mk_pulse False False (Some ''Speaker'')) = False
   \<and> source_is_droid (mk_pulse False False (Some ''Speaker'')) = False"
  by (simp add: init_module_info_def init_module_info_build_def WITH_DROID_SUPPORT_def
        switch_module_def mk_pulse_def)

text \<open>
  Claim C4, amended. During module discovery the unload depends on the build and not on
  the back-end flavor of the sink or the source: in a build without droid support an
  unload request is issued for every module named \<open>module-switch-on-port-available\<close>
  (and for no other module); in a build with droid support, which is the build the
  source configures, no module is ever unloaded, whatever the flavor tags are.
\<close>

theorem module_unload_by_build:
  "init_module_info_build with_droid_support ctx self (Some i) 0 =
     (self, if \<not> with_droid_support
               \<and> module_info_name i = ''module-switch-on-port-available''
            then issue ctx (Unload_module (module_info_index i)) else [])
   \<and> init_module_info ctx self info eol = (self, [])"
  by (simp add: init_module_info_def init_module_info_build_def WITH_DROID_SUPPORT_def
        split: option.splits)

text \<open>The module in a build without droid support on a droid back-end, and in the
  configured build on a native one.\<close>

theorem module_unload_by_build_witness:
  "init_module_info_build False True (mk_pulse True True None) (Some switch_module) 0
     = (mk_pulse True True None, [Request (Unload_module 7)])
   \<and> init_module_info True (mk_pulse False False None) (Some switch_module) 0
     = (mk_pulse False False None, [])"
  using module_unload_by_build [where with_droid_support = False and ctx = True
     and self = "mk_pulse True True None" and i = switch_module]
    module_unload_by_build [where ctx = True and self = "mk_pulse False False None"
     and info = "Some switch_module" and eol = 0]
  by (simp add: issue_def switch_module_def)

subsection \<open>The card filter\<close>

text \<open>
  Claim C7, as stated, fails: a card that has neither a bus path nor a form factor (no
  property at all) becomes the tracked card.
\<close>

theorem card_without_properties_counterexample:
  "init_card_info alsa_tokens True (mk_pulse False False None) (Some bare_card) 0
     = ((mk_pulse False False None)\<lparr>card_id := 3\<rparr>, [])
   \<and> card_info_index bare_card = 3
   \<and> pa_proplist_gets (card_info_proplist bare_card) PA_PROP_DEVICE_BUS_PATH = None
   \<and> pa_proplist_gets (card_info_proplist bare_card) PA_PROP_DEVICE_FORM_FACTOR = None"
  by (simp add: init_card_info_def bare_card_def pa_proplist_gets_def)

text \<open>
  Claim C7, amended. A card enumerated at discovery becomes the tracked card iff each
  of the three properties is absent or passes its test: \<open>device.bus_path\<close> is absent or
  starts with \<open>platform-\<close>, and \<open>device.form_factor\<close> is absent or equals
  \<open>internal\<close>, and \<open>device.class\<close> is absent or is not \<open>modem\<close>. A card that fails
  one of the tests leaves the back-end as it was.
\<close>

theorem card_filter:
  "((case pa_proplist_gets (card_info_proplist i) PA_PROP_DEVICE_BUS_PATH of
         None \<Rightarrow> True | Some prop \<Rightarrow> prefix ''platform-'' prop)
      \<and> (case pa_proplist_gets (card_info_proplist i) PA_PROP_DEVICE_FORM_FACTOR of
         None \<Rightarrow> True | Some prop \<Rightarrow> prop = ''internal'')
      \<and> (case pa_proplist_gets (card_info_proplist i) PA_PROP_DEVICE_CLASS of
         None \<Rightarrow> True | Some prop \<Rightarrow> prop \<noteq> ''modem'')
     \<longrightarrow> card_id (fst (init_card_info ucm ctx self (Some i) 0)) = card_info_index i)
   \<and> (\<not> ((case pa_proplist_gets (card_info_proplist i) PA_PROP_DEVICE_BUS_PATH of
         None \<Rightarrow> True | Some prop \<Rightarrow> prefix ''platform-'' prop)
      \<and> (case pa_proplist_gets (card_info_proplist i) PA_PROP_DEVICE_FORM_FACTOR of
         None \<Rightarrow> True | Some prop \<Rightarrow> prop = ''internal'')
      \<and> (case pa_proplist_gets (card_info_proplist i) PA_PROP_DEVICE_CLASS of
         None \<Rightarrow> True | Some prop \<Rightarrow> prop \<noteq> ''modem''))
     \<longrightarrow> init_card_info ucm ctx self (Some i) 0 = (self, []))"
  by (auto simp: init_card_info_def g_str_has_prefix_def Let_def
        CARD_BUS_PATH_PREFIX_def CARD_FORM_FACTOR_def CARD_MODEM_CLASS_def
        split: option.splits)

text \<open>The phone's card is taken, the USB headset is not.\<close>

theorem card_filter_witness:
  "card_id (fst (init_card_info alsa_tokens True (mk_pulse False False None)
                   (Some phone_card) 0)) = 3
   \<and> init_card_info alsa_tokens True (mk_pulse False False None) (Some usb_card) 0
       = (mk_pulse False False None, [])"
  using card_filter [of phone_card alsa_tokens True "mk_pulse False False None"]
    card_filter [of usb_card alsa_tokens True "mk_pulse False False None"]
  by (simp add: phone_card_def usb_card_def pa_proplist_gets_def PA_PROP_DEVICE_BUS_PATH_def
        PA_PROP_DEVICE_FORM_FACTOR_def PA_PROP_DEVICE_CLASS_def)

subsection \<open>The current mode\<close>

lemma mode_frame_requests [simp]:
  "mode_frame self data (self, [])"
  "mode_frame self data (self, issue ctx r)"
  "mode_frame self data (self, [Request r])"
  "mode_frame self data (self, issue ctx r @ issue ctx r')"
  by (simp_all add: mode_frame_def issue_def)

lemma mode_frame_complete [simp]:
  "mode_frame self data (operation_complete_cb ctx self success data)"
  by (simp add: mode_frame_def operation_complete_cb_def Let_def split: option.splits)

lemma mode_frame_request_or_complete [simp]:
  "mode_frame self (Some operation) (request_or_complete ctx self operation req)"
  by (simp add: request_or_complete_def split: option.splits)

lemma mode_frame_intent_error [simp]:
  "mode_frame self data (intent_error self cad_op)"
  by (simp add: mode_frame_def intent_error_def split: option.splits)

lemma new_sink_ports_loop_mode [simp]:
  "current_mode (new_sink_ports_loop dev ports self) = current_mode self"
  by (induction ports arbitrary: self) (simp_all add: Let_def)

lemma process_new_sink_mode [simp]:
  "current_mode (process_new_sink ucm self i) = current_mode self"
  by (simp add: process_new_sink_def)

lemma process_new_source_mode [simp]:
  "current_mode (process_new_source self i) = current_mode self"
  by (simp add: process_new_source_def)

lemma mode_frame_discovery:
  "mode_frame self data (init_sink_info ucm ctx self info eol)"
  "mode_frame self data (change_sink_info ctx self info eol)"
  "mode_frame self data (init_source_info ctx self soinfo eol)"
  "mode_frame self data (change_source_info ctx self soinfo eol)"
  "mode_frame self data (init_card_info ucm ctx self cinfo eol)"
  "mode_frame self data (init_module_info ctx self minfo eol)"
  "mode_frame self data (changed_cb ctx self fac knd idx)"
  "mode_frame self data (init_pulseaudio_objects ctx self)"
  by (simp_all add: mode_frame_def init_sink_info_def change_sink_info_def init_source_info_def
      change_source_info_def init_card_info_def init_module_info_def init_module_info_build_def
      changed_cb_def init_pulseaudio_objects_def issue_def Let_def
      split: option.splits prod.splits facility.splits)

lemma mode_frame_droid:
  "droid_source_parked_complete_cb ctx self success data = Inr res \<Longrightarrow> mode_frame self data res"
  "droid_sink_parked_complete_cb ctx self success data = Inr res \<Longrightarrow> mode_frame self data res"
  "droid_mode_change_complete_cb ctx self success data = Inr res \<Longrightarrow> mode_frame self data res"
  "droid_output_port_change_complete_cb ctx self success data = Inr res \<Longrightarrow> mode_frame self data res"
  by (auto simp: droid_source_parked_complete_cb_def droid_sink_parked_complete_cb_def
      droid_mode_change_complete_cb_def droid_output_port_change_complete_cb_def
      split: option.splits if_splits)

lemma mode_frame_steps:
  "set_card_profile ucm ctx self cinfo eol data = Inr res \<Longrightarrow> mode_frame self data res"
  "set_output_port ctx self sinfo eol data = Inr res \<Longrightarrow> mode_frame self data res"
  "set_input_port ctx self soinfo eol data = Inr res \<Longrightarrow> mode_frame self data res"
  "set_mic_mute ctx self soinfo eol data = Inr res \<Longrightarrow> mode_frame self data res"
  by (auto simp: set_card_profile_def set_output_port_def set_input_port_def set_mic_mute_def
      Let_def split: option.splits if_splits)

lemma mode_frame_intents:
  "cad_pulse_select_mode ctx self mode cad_op = Inr res \<Longrightarrow> mode_frame self None res"
  "cad_pulse_enable_speaker ctx self enable cad_op = Inr res \<Longrightarrow> mode_frame self None res"
  "cad_pulse_mute_mic ctx self mute cad_op = Inr res \<Longrightarrow> mode_frame self None res"
  by (auto simp: cad_pulse_select_mode_def cad_pulse_enable_speaker_def cad_pulse_mute_mic_def
      mode_frame_def intent_error_def issue_def
      Let_def split: option.splits if_splits)

lemma dispatch_mode_frame:
  "dispatch ucm ctx self ev = Inr res \<Longrightarrow> mode_frame self (user_data ev) res"
  by (induction ucm ctx self ev rule: dispatch.induct)
     (auto simp: mode_frame_discovery mode_frame_droid mode_frame_steps mode_frame_intents)


text \<open>
  The operation that \<^verbatim>\<open>cad_pulse_select_mode\<close> hands to its first step carries the
  user's operation and the requested mode (lines 1097-1098).
\<close>

lemma select_mode_operation_value:
  "cad_pulse_select_mode ctx self mode cad_op = Inr (self', effs) \<Longrightarrow>
   Request (Get_card_info_by_index idx cb (Some operation)) \<in> set effs
     \<or> Request (Get_sink_info_by_index idx cb' (Some operation)) \<in> set effs \<Longrightarrow>
   operation_value operation = mode \<and> operation_op operation = cad_op"
  by (auto simp: cad_pulse_select_mode_def intent_error_def issue_def Let_def
        split: option.splits if_splits)

text \<open>
  Forwarding: a request that a handler sends carries the user data the handler was
  called with, or an operation the intent has just allocated; requests of discovery carry
  none. A completion with success is of the operation in the user data.
\<close>

lemma set_sent: "set (sent effs) = {r. Request r \<in> set effs}"
  by (induction effs rule: sent.induct) auto

lemma answers_user_data: "answers r ev \<Longrightarrow> user_data ev = request_data r"
  by (induction r ev rule: answers.induct) auto

lemma forward_complete:
  "Request r \<notin> set (snd (operation_complete_cb ctx self success data))"
  by (simp add: operation_complete_cb_def Let_def split: option.splits)

lemma forward_request_or_complete:
  "request_or_complete ctx self operation req = (self', effs) \<Longrightarrow>
     Request r \<in> set effs \<Longrightarrow> req = Some r"
  using forward_complete [of r ctx self 1 "Some operation"]
  by (auto simp: request_or_complete_def split: option.splits if_splits)

lemma forward_droid:
  "droid_source_parked_complete_cb ctx self success data = Inr (self', effs) \<Longrightarrow>
     Request r \<in> set effs \<Longrightarrow> request_data r = data"
  "droid_sink_parked_complete_cb ctx self success data = Inr (self', effs) \<Longrightarrow>
     Request r \<in> set effs \<Longrightarrow> request_data r = data"
  "droid_mode_change_complete_cb ctx self success data = Inr (self', effs) \<Longrightarrow>
     Request r \<in> set effs \<Longrightarrow> request_data r = data"
  "droid_output_port_change_complete_cb ctx self success data = Inr (self', effs) \<Longrightarrow>
     Request r \<in> set effs \<Longrightarrow> request_data r = data"
  by (auto simp: droid_source_parked_complete_cb_def droid_sink_parked_complete_cb_def
      droid_mode_change_complete_cb_def droid_output_port_change_complete_cb_def issue_def
      operation_complete_cb_def Let_def
      split: option.splits if_splits)

lemma forward_steps:
  "set_card_profile ucm ctx self cinfo eol data = Inr (self', effs) \<Longrightarrow>
     Request r \<in> set effs \<Longrightarrow> request_data r = data"
  "set_output_port ctx self sinfo eol data = Inr (self', effs) \<Longrightarrow>
     Request r \<in> set effs \<Longrightarrow> request_data r = data"
  "set_input_port ctx self soinfo eol data = Inr (self', effs) \<Longrightarrow>
     Request r \<in> set effs \<Longrightarrow> request_data r = data"
  "set_mic_mute ctx self soinfo eol data = Inr (self', effs) \<Longrightarrow>
     Request r \<in> set effs \<Longrightarrow> request_data r = data"
  by (auto simp: set_card_profile_def set_output_port_def set_input_port_def set_mic_mute_def
      Let_def dest: forward_request_or_complete
      split: option.splits if_splits)


lemma forward_intents:
  "cad_pulse_select_mode ctx self mode cad_op = Inr (self', effs) \<Longrightarrow>
     Request r \<in> set effs \<Longrightarrow> request_data r = Some operation \<Longrightarrow>
     creates (Select_mode mode cad_op) operation"
  "cad_pulse_enable_speaker ctx self enable cad_op = Inr (self', effs) \<Longrightarrow>
     Request r \<in> set effs \<Longrightarrow> request_data r = Some operation \<Longrightarrow>
     creates (Enable_speaker enable cad_op) operation"
  "cad_pulse_mute_mic ctx self mute cad_op = Inr (self', effs) \<Longrightarrow>
     Request r \<in> set effs \<Longrightarrow> request_data r = Some operation \<Longrightarrow>
     creates (Mute_mic mute cad_op) operation"
  by (auto simp: cad_pulse_select_mode_def cad_pulse_enable_speaker_def cad_pulse_mute_mic_def
      intent_error_def issue_def Let_def split: option.splits if_splits)

lemma forward_discovery:
  "init_sink_info ucm ctx self info eol = (self', effs) \<Longrightarrow>
     Request r \<in> set effs \<Longrightarrow> request_data r = None"
  "change_sink_info ctx self info eol = (self', effs) \<Longrightarrow>
     Request r \<in> set effs \<Longrightarrow> request_data r = None"
  "init_source_info ctx self soinfo eol = (self', effs) \<Longrightarrow>
     Request r \<in> set effs \<Longrightarrow> request_data r = None"
  "change_source_info ctx self soinfo eol = (self', effs) \<Longrightarrow>
     Request r \<in> set effs \<Longrightarrow> request_data r = None"
  "init_card_info ucm ctx self cinfo eol = (self', effs) \<Longrightarrow>
     Request r \<in> set effs \<Longrightarrow> request_data r = None"
  "init_module_info ctx self minfo eol = (self', effs) \<Longrightarrow>
     Request r \<in> set effs \<Longrightarrow> request_data r = None"
  "changed_cb ctx self fac knd idx = (self', effs) \<Longrightarrow>
     Request r \<in> set effs \<Longrightarrow> request_data r = None"
  "init_pulseaudio_objects ctx self = (self', effs) \<Longrightarrow>
     Request r \<in> set effs \<Longrightarrow> request_data r = None"
  by (auto simp: init_sink_info_def change_sink_info_def init_source_info_def
      change_source_info_def init_card_info_def init_module_info_def init_module_info_build_def
      changed_cb_def init_pulseaudio_objects_def issue_def Let_def
      split: option.splits prod.splits facility.splits if_splits)

lemma dispatch_forwards:
  "dispatch ucm ctx self ev = Inr (self', effs) \<Longrightarrow> Request r \<in> set effs \<Longrightarrow>
   request_data r = Some operation \<Longrightarrow>
   user_data ev = Some operation \<or> creates ev operation"
proof (induction ucm ctx self ev rule: dispatch.induct)
  case (4 ucm ctx self success data)
  then show ?case using forward_complete [of r ctx self success data] by auto
qed (auto dest: forward_droid forward_steps forward_intents forward_discovery)

lemma run_pending_originated:
  "run ucm self pending evs = Some (self', pending') \<Longrightarrow>
   (\<forall>r \<in> set pending. \<forall>operation. request_data r = Some operation \<longrightarrow> operation \<in> known) \<Longrightarrow>
   r \<in> set pending' \<Longrightarrow> request_data r = Some operation \<Longrightarrow>
   operation \<in> known \<or> originated evs operation"
proof (induction evs arbitrary: self pending known)
  case Nil
  then show ?case by auto
next
  case (Cons a evs)
  obtain ctx ev where a: "a = (ctx, ev)" by (cases a)
  from Cons.prems(1) a have adm: "admissible pending ev"
    by (auto split: if_splits)
  from Cons.prems(1) a adm obtain self1 effs where
    d: "dispatch ucm ctx self ev = Inr (self1, effs)"
    and rest: "run ucm self1 (pending @ sent effs) evs = Some (self', pending')"
    by (auto split: sum.splits)
  let ?known = "known \<union> {operation. creates ev operation}"
  have inv: "\<forall>r \<in> set (pending @ sent effs). \<forall>operation.
               request_data r = Some operation \<longrightarrow> operation \<in> ?known"
  proof (intro ballI allI impI)
    fix q operation
    assume q: "q \<in> set (pending @ sent effs)" and qd: "request_data q = Some operation"
    show "operation \<in> ?known"
    proof (cases "q \<in> set pending")
      case True
      with Cons.prems(2) qd show ?thesis by auto
    next
      case False
      with q have "Request q \<in> set effs" by (simp add: set_sent)
      from dispatch_forwards [OF d this qd]
      show ?thesis
      proof
        assume u: "user_data ev = Some operation"
        then have "is_reply ev" by (cases ev) auto
        with adm obtain p where p: "p \<in> set pending" "answers p ev"
          by (auto simp: admissible_def list_ex_iff)
        from answers_user_data [OF p(2)] u have "request_data p = Some operation" by simp
        with Cons.prems(2) p(1) show ?thesis by auto
      next
        assume "creates ev operation"
        then show ?thesis by simp
      qed
    qed
  qed
  from Cons.IH [OF rest inv Cons.prems(3) Cons.prems(4)]
  show ?case by (auto simp: a originated_def)
qed

lemma completion_complete:
  "operation_complete_cb ctx self success data = (self', effs) \<Longrightarrow>
   Completion c' \<in> set effs \<Longrightarrow> op_success c' \<Longrightarrow>
   \<exists>operation c. data = Some operation \<and> operation_op operation = Some c
      \<and> c' = c\<lparr>op_success := True\<rparr>"
  by (auto simp: operation_complete_cb_def Let_def split: option.splits)

lemma completion_request_or_complete:
  "request_or_complete ctx self operation req = (self', effs) \<Longrightarrow>
   Completion c' \<in> set effs \<Longrightarrow> op_success c' \<Longrightarrow>
   \<exists>c. operation_op operation = Some c \<and> c' = c\<lparr>op_success := True\<rparr>"
  by (auto simp: request_or_complete_def dest: completion_complete
      split: option.splits if_splits)

lemma completion_droid:
  "droid_source_parked_complete_cb ctx self success data = Inr (self', effs) \<Longrightarrow>
     Completion c' \<in> set effs \<Longrightarrow> op_success c' \<Longrightarrow>
     \<exists>operation c. data = Some operation \<and> operation_op operation = Some c
        \<and> c' = c\<lparr>op_success := True\<rparr>"
  "droid_sink_parked_complete_cb ctx self success data = Inr (self', effs) \<Longrightarrow>
     Completion c' \<in> set effs \<Longrightarrow> op_success c' \<Longrightarrow>
     \<exists>operation c. data = Some operation \<and> operation_op operation = Some c
        \<and> c' = c\<lparr>op_success := True\<rparr>"
  "droid_mode_change_complete_cb ctx self success data = Inr (self', effs) \<Longrightarrow>
     Completion c' \<in> set effs \<Longrightarrow> op_success c' \<Longrightarrow>
     \<exists>operation c. data = Some operation \<and> operation_op operation = Some c
        \<and> c' = c\<lparr>op_success := True\<rparr>"
  "droid_output_port_change_complete_cb ctx self success data = Inr (self', effs) \<Longrightarrow>
     Completion c' \<in> set effs \<Longrightarrow> op_success c' \<Longrightarrow>
     \<exists>operation c. data = Some operation \<and> operation_op operation = Some c
        \<and> c' = c\<lparr>op_success := True\<rparr>"
  by (auto simp: droid_source_parked_complete_cb_def droid_sink_parked_complete_cb_def
      droid_mode_change_complete_cb_def droid_output_port_change_complete_cb_def issue_def
      dest: completion_complete split: option.splits if_splits)

lemma completion_steps:
  "set_card_profile ucm ctx self cinfo eol data = Inr (self', effs) \<Longrightarrow>
     Completion c' \<in> set effs \<Longrightarrow> op_success c' \<Longrightarrow>
     \<exists>operation c. data = Some operation \<and> operation_op operation = Some c
        \<and> c' = c\<lparr>op_success := True\<rparr>"
  "set_output_port ctx self sinfo eol data = Inr (self', effs) \<Longrightarrow>
     Completion c' \<in> set effs \<Longrightarrow> op_success c' \<Longrightarrow>
     \<exists>operation c. data = Some operation \<and> operation_op operation = Some c
        \<and> c' = c\<lparr>op_success := True\<rparr>"
  "set_input_port ctx self soinfo eol data = Inr (self', effs) \<Longrightarrow>
     Completion c' \<in> set effs \<Longrightarrow> op_success c' \<Longrightarrow>
     \<exists>operation c. data = Some operation \<and> operation_op operation = Some c
        \<and> c' = c\<lparr>op_success := True\<rparr>"
  "set_mic_mute ctx self soinfo eol data = Inr (self', effs) \<Longrightarrow>
     Completion c' \<in> set effs \<Longrightarrow> op_success c' \<Longrightarrow>
     \<exists>operation c. data = Some operation \<and> operation_op operation = Some c
        \<and> c' = c\<lparr>op_success := True\<rparr>"
  by (auto simp: set_card_profile_def set_output_port_def set_input_port_def set_mic_mute_def
      Let_def dest: completion_request_or_complete split: option.splits if_splits)

lemma completion_intents:
  "cad_pulse_select_mode ctx self mode cad_op = Inr (self', effs) \<Longrightarrow>
     Completion c' \<in> set effs \<Longrightarrow> \<not> op_success c'"
  "cad_pulse_enable_speaker ctx self enable cad_op = Inr (self', effs) \<Longrightarrow>
     Completion c' \<in> set effs \<Longrightarrow> \<not> op_success c'"
  "cad_pulse_mute_mic ctx self mute cad_op = Inr (self', effs) \<Longrightarrow>
     Completion c' \<in> set effs \<Longrightarrow> \<not> op_success c'"
  by (auto simp: cad_pulse_select_mode_def cad_pulse_enable_speaker_def cad_pulse_mute_mic_def
      intent_error_def issue_def Let_def split: option.splits if_splits)

lemma completion_discovery:
  "init_sink_info ucm ctx self info eol = (self', effs) \<Longrightarrow> Completion c' \<notin> set effs"
  "change_sink_info ctx self info eol = (self', effs) \<Longrightarrow> Completion c' \<notin> set effs"
  "init_source_info ctx self soinfo eol = (self', effs) \<Longrightarrow> Completion c' \<notin> set effs"
  "change_source_info ctx self soinfo eol = (self', effs) \<Longrightarrow> Completion c' \<notin> set effs"
  "init_card_info ucm ctx self cinfo eol = (self', effs) \<Longrightarrow> Completion c' \<notin> set effs"
  "init_module_info ctx self minfo eol = (self', effs) \<Longrightarrow> Completion c' \<notin> set effs"
  "changed_cb ctx self fac knd idx = (self', effs) \<Longrightarrow> Completion c' \<notin> set effs"
  "init_pulseaudio_objects ctx self = (self', effs) \<Longrightarrow> Completion c' \<notin> set effs"
  by (auto simp: init_sink_info_def change_sink_info_def init_source_info_def
      change_source_info_def init_card_info_def init_module_info_def init_module_info_build_def
      changed_cb_def init_pulseaudio_objects_def issue_def Let_def
      split: option.splits prod.splits facility.splits if_splits)

lemma dispatch_success_completion:
  "dispatch ucm ctx self ev = Inr (self', effs) \<Longrightarrow> Completion c' \<in> set effs \<Longrightarrow>
   op_success c' \<Longrightarrow>
   \<exists>operation c. user_data ev = Some operation \<and> operation_op operation = Some c
      \<and> c' = c\<lparr>op_success := True\<rparr>"
  by (induction ucm ctx self ev rule: dispatch.induct)
     (auto dest: completion_complete completion_droid completion_steps completion_intents
        completion_discovery)

lemma select_mode_success_iff:
  "list_ex select_mode_success effs \<longleftrightarrow>
     (\<exists>c. Completion c \<in> set effs \<and> op_type c = CAD_OPERATION_SELECT_MODE \<and> op_success c)"
proof -
  have "select_mode_success e \<longleftrightarrow>
     (\<exists>c. e = Completion c \<and> op_type c = CAD_OPERATION_SELECT_MODE \<and> op_success c)" for e
    by (cases e) auto
  then show ?thesis by (auto simp: list_ex_iff)
qed

lemma creates_select_mode:
  "creates ev \<lparr>operation_op = Some c, operation_value = m\<rparr> \<Longrightarrow>
   op_type c = CAD_OPERATION_SELECT_MODE \<Longrightarrow> ev = Select_mode m (Some c)"
  by (induction ev "\<lparr>operation_op = Some c, operation_value = m\<rparr>" rule: creates.induct)
     (auto simp: unmute_op_def)

text \<open>
  Claim C8. Whatever the loop dispatches (an intent, a reply of the server to any
  callback of the file, a subscription event, the context becoming ready), if the handler
  returns, then \<^verbatim>\<open>current_mode\<close> is what it was unless the handler called the
  completion handle of a mode selection with success, and then it is the value of the
  operation that completed. In \<^verbatim>\<open>operation_complete_cb\<close> itself: the mode becomes
  \<open>m\<close> when the operation is a mode selection and the server reports success, and in
  every other case (another kind of operation, or failure) the back-end is unchanged.
  Along a chain: in every run of the loop that starts with no request pending, when a
  step completes a mode selection with success, the mode it writes is the mode \<open>m\<close> of
  an intent \<open>SelectMode(m)\<close> taken earlier in the run, and the handle called is the one
  that intent came with; every step in between hands the operation on as it got it.
\<close>

theorem current_mode_written_only_by_select_mode_success:
  "(dispatch ucm ctx self ev = Inr (self', effs) \<longrightarrow>
      (list_ex select_mode_success effs \<longrightarrow>
         (\<exists>operation. user_data ev = Some operation
            \<and> current_mode self' = operation_value operation))
      \<and> (\<not> list_ex select_mode_success effs \<longrightarrow> current_mode self' = current_mode self))
   \<and> operation_complete_cb ctx self success
         (Some \<lparr>operation_op = Some c, operation_value = m\<rparr>)
       = (if op_type c = CAD_OPERATION_SELECT_MODE \<and> success \<noteq> 0
          then self\<lparr>current_mode := m\<rparr> else self,
          [Completion (c\<lparr>op_success := (success \<noteq> 0)\<rparr>)])
   \<and> (run ucm start [] evs = Some (before, pending) \<and> admissible pending reply
        \<and> dispatch ucm ctx_r before reply = Inr (after, effs_r)
        \<and> list_ex select_mode_success effs_r
      \<longrightarrow> (\<exists>ctx0 c0.
            (ctx0, Select_mode (current_mode after) (Some c0)) \<in> set evs
            \<and> op_type c0 = CAD_OPERATION_SELECT_MODE
            \<and> user_data reply =
                Some \<lparr>operation_op = Some c0, operation_value = current_mode after\<rparr>
            \<and> Completion (c0\<lparr>op_success := True\<rparr>) \<in> set effs_r))"
proof (intro conjI impI)
  assume d: "dispatch ucm ctx self ev = Inr (self', effs)"
  from dispatch_mode_frame [OF d]
  have f: "mode_frame self (user_data ev) (self', effs)" .
  { assume "list_ex select_mode_success effs"
    with f show "\<exists>operation. user_data ev = Some operation
            \<and> current_mode self' = operation_value operation"
      by (simp add: mode_frame_def split: option.splits) }
  { assume "\<not> list_ex select_mode_success effs"
    with f show "current_mode self' = current_mode self"
      by (simp add: mode_frame_def) }
next
  show "operation_complete_cb ctx self success
         (Some \<lparr>operation_op = Some c, operation_value = m\<rparr>)
       = (if op_type c = CAD_OPERATION_SELECT_MODE \<and> success \<noteq> 0
          then self\<lparr>current_mode := m\<rparr> else self,
          [Completion (c\<lparr>op_success := (success \<noteq> 0)\<rparr>)])"
    by (simp add: operation_complete_cb_def Let_def)
next
  assume a: "run ucm start [] evs = Some (before, pending) \<and> admissible pending reply
        \<and> dispatch ucm ctx_r before reply = Inr (after, effs_r)
        \<and> list_ex select_mode_success effs_r"
  then have r: "run ucm start [] evs = Some (before, pending)"
    and adm: "admissible pending reply"
    and d: "dispatch ucm ctx_r before reply = Inr (after, effs_r)"
    and s: "list_ex select_mode_success effs_r" by simp_all
  from s obtain c' where c': "Completion c' \<in> set effs_r"
    "op_type c' = CAD_OPERATION_SELECT_MODE" "op_success c'"
    by (auto simp: select_mode_success_iff)
  from dispatch_success_completion [OF d c'(1) c'(3)] obtain operation c0 where
    u: "user_data reply = Some operation" and oc: "operation_op operation = Some c0"
    and cc: "c' = c0\<lparr>op_success := True\<rparr>" by blast
  from dispatch_mode_frame [OF d] s u have m: "current_mode after = operation_value operation"
    by (simp add: mode_frame_def)
  from oc m have op_eq:
    "operation = \<lparr>operation_op = Some c0, operation_value = current_mode after\<rparr>"
    by (cases operation) simp
  from u have "is_reply reply" by (cases reply) auto
  with adm obtain p where p: "p \<in> set pending" "answers p reply"
    by (auto simp: admissible_def list_ex_iff)
  from answers_user_data [OF p(2)] u have pd: "request_data p = Some operation" by simp
  from run_pending_originated [OF r _ p(1) pd, of "{}"]
  have "originated evs operation" by simp
  then obtain ctx0 ev0 where e0: "(ctx0, ev0) \<in> set evs" "creates ev0 operation"
    by (auto simp: originated_def list_ex_iff)
  from cc c'(2) have t: "op_type c0 = CAD_OPERATION_SELECT_MODE" by simp
  from creates_select_mode [OF e0(2) [unfolded op_eq] t]
  have "ev0 = Select_mode (current_mode after) (Some c0)" .
  with e0 t u op_eq c'(1) cc
  show "\<exists>ctx0 c0.
            (ctx0, Select_mode (current_mode after) (Some c0)) \<in> set evs
            \<and> op_type c0 = CAD_OPERATION_SELECT_MODE
            \<and> user_data reply =
                Some \<lparr>operation_op = Some c0, operation_value = current_mode after\<rparr>
            \<and> Completion (c0\<lparr>op_success := True\<rparr>) \<in> set effs_r"
    by auto
qed

text \<open>
  A mode selection for \<open>Call\<close> completes with success and with failure; and the run
  in which the intent \<open>SelectMode(Call)\<close> on a native sink is followed by the sink's
  payload with the headphones active, which completes it.
\<close>

theorem current_mode_written_only_by_select_mode_success_witness:
  "dispatch alsa_tokens True (mk_pulse False False None)
     (Success_reply Operation_complete_cb 1 (Some (mk_operation CAD_OPERATION_SELECT_MODE 1)))
     = Inr ((mk_pulse False False None)\<lparr>current_mode := 1\<rparr>,
            [Completion \<lparr>op_type = CAD_OPERATION_SELECT_MODE, op_success = True\<rparr>])
   \<and> dispatch alsa_tokens True (mk_pulse False False None)
     (Success_reply Operation_complete_cb 0 (Some (mk_operation CAD_OPERATION_SELECT_MODE 1)))
     = Inr (mk_pulse False False None,
            [Completion \<lparr>op_type = CAD_OPERATION_SELECT_MODE, op_success = False\<rparr>])
   \<and> current_mode (mk_pulse False False None) = 0
   \<and> run alsa_tokens (mk_pulse False False (Some ''Speaker'')) []
        [(True, Select_mode 1 (Some \<lparr>op_type = CAD_OPERATION_SELECT_MODE, op_success = False\<rparr>))]
     = Some (mk_pulse False False (Some ''Speaker''),
             [Get_sink_info_by_index 0 Set_output_port
                (Some (mk_operation CAD_OPERATION_SELECT_MODE 1))])
   \<and> dispatch alsa_tokens True (mk_pulse False False (Some ''Speaker''))
        (Sink_info_reply Set_output_port (Some (native_sink ''Headphones'')) 0
           (Some (mk_operation CAD_OPERATION_SELECT_MODE 1)))
     = Inr ((mk_pulse False False (Some ''Speaker''))\<lparr>current_mode := 1\<rparr>,
            [Completion \<lparr>op_type = CAD_OPERATION_SELECT_MODE, op_success = True\<rparr>])"
  using current_mode_written_only_by_select_mode_success
    [where ucm = alsa_tokens and ctx = True and self = "mk_pulse False False None"
       and ev = "Success_reply Operation_complete_cb 1
                   (Some (mk_operation CAD_OPERATION_SELECT_MODE 1))"
       and self' = "(mk_pulse False False None)\<lparr>current_mode := 1\<rparr>"
       and effs = "[Completion \<lparr>op_type = CAD_OPERATION_SELECT_MODE, op_success = True\<rparr>]"
       and success = 0 and c = "\<lparr>op_type = CAD_OPERATION_SELECT_MODE, op_success = False\<rparr>"
       and m = 1
       and start = "mk_pulse False False (Some ''Speaker'')"
       and evs = "[(True, Select_mode 1
                     (Some \<lparr>op_type = CAD_OPERATION_SELECT_MODE, op_success = False\<rparr>))]"
       and before = "mk_pulse False False (Some ''Speaker'')"
       and pending = "[Get_sink_info_by_index 0 Set_output_port
                         (Some (mk_operation CAD_OPERATION_SELECT_MODE 1))]"
       and reply = "Sink_info_reply Set_output_port (Some (native_sink ''Headphones'')) 0
                    (Some (mk_operation CAD_OPERATION_SELECT_MODE 1))"
       and ctx_r = True
       and after = "(mk_pulse False False (Some ''Speaker''))\<lparr>current_mode := 1\<rparr>"
       and effs_r = "[Completion \<lparr>op_type = CAD_OPERATION_SELECT_MODE, op_success = True\<rparr>]"]
  by (simp add: example_defs operation_complete_cb_def native_sink_def admissible_def
        cad_pulse_select_mode_def issue_def set_output_port_def output_target_port_def
        get_available_sink_port_def port_skipped_def higher_priority_def
        request_or_complete_def)

subsection \<open>The implicit unmute\<close>

text \<open>
  Claim C10. A mode selection with a target other than \<open>Call\<close> first fetches the
  source for \<^verbatim>\<open>set_mic_mute\<close> with the auxiliary operation, whose \<^verbatim>\<open>op\<close> is
  \<^verbatim>\<open>NULL\<close>. With that operation as user data, \<^verbatim>\<open>set_mic_mute\<close> never faults,
  leaves the back-end as it is, calls no completion handle, and whatever it sends is a
  set-mute request whose callback is \<^verbatim>\<open>operation_complete_cb\<close> with the same
  operation; and \<^verbatim>\<open>operation_complete_cb\<close> on it, for either outcome, changes
  nothing (so not \<^verbatim>\<open>current_mode\<close>) and calls no completion handle.
\<close>

theorem implicit_unmute_is_silent:
  "(mode \<noteq> CALL_AUDIO_MODE_CALL \<and> op_type c = CAD_OPERATION_SELECT_MODE \<longrightarrow>
      (\<exists>effs. cad_pulse_select_mode ctx self mode (Some c) =
         Inr (self, issue ctx (Get_source_info_by_index (source_id self) Set_mic_mute
                                 (Some unmute_op)) @ effs)))
   \<and> operation_op unmute_op = None
   \<and> (\<exists>effs. set_mic_mute ctx self info eol (Some unmute_op) = Inr (self, effs)
         \<and> (\<forall>e \<in> set effs. \<exists>m. e = Request (Set_source_mute_by_index (source_id self) m
                                             Operation_complete_cb unmute_op)))
   \<and> operation_complete_cb ctx self success (Some unmute_op) = (self, [])"
  by (auto simp: cad_pulse_select_mode_def unmute_op_def set_mic_mute_def operation_complete_cb_def
       request_or_complete_def Let_def split: option.splits)

text \<open>Leaving call mode with a muted microphone.\<close>

theorem implicit_unmute_is_silent_witness:
  "cad_pulse_select_mode True (mk_pulse False False None) CALL_AUDIO_MODE_DEFAULT
     (Some \<lparr>op_type = CAD_OPERATION_SELECT_MODE, op_success = False\<rparr>)
     = Inr (mk_pulse False False None,
            [Request (Get_source_info_by_index 0 Set_mic_mute (Some unmute_op)),
             Request (Get_sink_info_by_index 0 Set_output_port
                        (Some (mk_operation CAD_OPERATION_SELECT_MODE 0)))])
   \<and> set_mic_mute True (mk_pulse False False None)
        (Some ((mk_source [] None)\<lparr>source_info_mute := True\<rparr>)) 0 (Some unmute_op)
     = Inr (mk_pulse False False None,
            [Request (Set_source_mute_by_index 0 False Operation_complete_cb unmute_op)])
   \<and> operation_complete_cb True (mk_pulse False False None) 0 (Some unmute_op)
     = (mk_pulse False False None, [])"
  using implicit_unmute_is_silent
    [where mode = CALL_AUDIO_MODE_DEFAULT
       and c = "\<lparr>op_type = CAD_OPERATION_SELECT_MODE, op_success = False\<rparr>"
       and ctx = True and self = "mk_pulse False False None"
       and info = "Some ((mk_source [] None)\<lparr>source_info_mute := True\<rparr>)" and eol = 0
       and success = 0]
  by (simp add: example_defs cad_pulse_select_mode_def set_mic_mute_def issue_def
        request_or_complete_def unmute_op_def)

subsection \<open>The output port step\<close>




text \<open>
  Claim C6 does not hold of the code. The only available port of the sink is the
  speaker, which is excluded when the speaker is switched off; the selector returns
  none, and \<^verbatim>\<open>set_output_port\<close> hands the \<^verbatim>\<open>NULL\<close> target to \<^verbatim>\<open>strcmp\<close> at
  line 984: the step neither skips nor sends a request.
\<close>

theorem output_port_step_null_target:
  "get_available_sink_port
      (mk_sink [mk_port ''Speaker'' 60 PA_PORT_AVAILABLE_YES]
               (Some (mk_port ''Speaker'' 60 PA_PORT_AVAILABLE_YES)))
      (Some ''Speaker'') False = None
   \<and> set_output_port True (mk_pulse False False (Some ''Speaker''))
        (Some (mk_sink [mk_port ''Speaker'' 60 PA_PORT_AVAILABLE_YES]
                       (Some (mk_port ''Speaker'' 60 PA_PORT_AVAILABLE_YES)))) 0
        (Some (mk_operation CAD_OPERATION_ENABLE_SPEAKER 0))
     = Inl Null_dereference"
  by (simp add: set_output_port_def example_defs output_target_port_def
       get_available_sink_port_def port_skipped_def)

subsection \<open>The flavor flag of the output selection\<close>

text \<open>
  Claim C9 does not hold of the code. Two back-ends that differ in the source's flavor
  tag only, both with a droid sink that has an earpiece, a speaker and a wired headset:
  in the output port step of a mode selection for \<open>Call\<close> the request is for the
  earpiece in the one and for the wired headset in the other; reconciliation asks for the
  speaker in the one and for the wired headset in the other; and so does discovery,
  where the sink has just been tagged droid and the source's tag is whatever it was.
  Every call of \<^verbatim>\<open>get_available_sink_port\<close> passes \<^verbatim>\<open>source_is_droid\<close>.
\<close>

theorem sink_selection_reads_source_flavor:
  "mk_pulse True True (Some ''output-speaker'')
     = (mk_pulse True False (Some ''output-speaker''))\<lparr>source_is_droid := True\<rparr>
   \<and> set_output_port True (mk_pulse True False (Some ''output-speaker''))
        (Some droid_headset_sink) 0 (Some (mk_operation CAD_OPERATION_SELECT_MODE 1))
     = Inr (mk_pulse True False (Some ''output-speaker''),
            [Request (Set_sink_port_by_index 0 ''output-earpiece''
               (Some (Droid_output_port_change_complete_cb,
                      mk_operation CAD_OPERATION_SELECT_MODE 1)))])
   \<and> set_output_port True (mk_pulse True True (Some ''output-speaker''))
        (Some droid_headset_sink) 0 (Some (mk_operation CAD_OPERATION_SELECT_MODE 1))
     = Inr (mk_pulse True True (Some ''output-speaker''),
            [Request (Set_sink_port_by_index 0 ''output-wired_headset''
               (Some (Droid_output_port_change_complete_cb,
                      mk_operation CAD_OPERATION_SELECT_MODE 1)))])
   \<and> snd (change_sink_info True (mk_pulse True False (Some ''output-speaker''))
             (Some droid_headset_sink) 0)
     = [Request (Set_sink_port_by_index 0 ''output-speaker'' None)]
   \<and> snd (change_sink_info True (mk_pulse True True (Some ''output-speaker''))
             (Some droid_headset_sink) 0)
     = [Request (Set_sink_port_by_index 0 ''output-wired_headset'' None)]
   \<and> snd (init_sink_info alsa_tokens True
             ((mk_pulse False False None)\<lparr>sink_id := - 1\<rparr>)
             (Some (droid_headset_sink\<lparr>sink_info_proplist := [''device.api'' \<mapsto> ''droid-hal'']\<rparr>)) 0)
     = [Request (Set_sink_port_by_index 0 ''output-speaker'' None)]
   \<and> snd (init_sink_info alsa_tokens True
             ((mk_pulse False True None)\<lparr>sink_id := - 1\<rparr>)
             (Some (droid_headset_sink\<lparr>sink_info_proplist := [''device.api'' \<mapsto> ''droid-hal'']\<rparr>)) 0)
     = [Request (Set_sink_port_by_index 0 ''output-wired_headset'' None)]
   \<and> sink_is_droid (fst (init_sink_info alsa_tokens True
             ((mk_pulse False False None)\<lparr>sink_id := - 1\<rparr>)
             (Some (droid_headset_sink\<lparr>sink_info_proplist := [''device.api'' \<mapsto> ''droid-hal'']\<rparr>)) 0))"
  by (simp add: set_output_port_def example_defs output_target_port_def droid_headset_sink_def
       get_available_sink_port_def port_skipped_def higher_priority_def droid_names
       request_or_complete_def change_sink_info_def init_sink_info_def process_new_sink_def
       g_hash_table_lookup_def g_hash_table_insert_def issue_def pa_proplist_gets_def Let_def
       PA_PROP_DEVICE_API_def PA_PROP_DEVICE_CLASS_def)

subsection \<open>Failed requests in a chain\<close>

text \<open>
  Claim C3 does not hold of the code. A mode selection for \<open>Call\<close> on a droid card:
  the profile change is sent; it fails (\<open>success = 0\<close>) and the callback parks the sink
  all the same; the two parking requests fail and the chain goes on; the output port
  step finds the earpiece active and completes the operation with success, and
  \<^verbatim>\<open>current_mode\<close> becomes \<open>Call\<close>. No step calls the completion handle with
  failure.
\<close>

theorem failed_requests_reported_as_success:
  "dispatch alsa_tokens True droid_pulse
     (Card_info_reply Set_card_profile (Some droid_card) 0 (Some call_operation))
     = Inr (droid_pulse,
            [Request (Set_card_profile_by_index 0 ''voicecall''
                        Droid_mode_change_complete_cb call_operation)])
   \<and> dispatch alsa_tokens True droid_pulse
     (Success_reply Droid_mode_change_complete_cb 0 (Some call_operation))
     = Inr (droid_pulse,
            [Request (Set_sink_port_by_index 0 ''output-parking''
                        (Some (Droid_sink_parked_complete_cb, call_operation)))])
   \<and> dispatch alsa_tokens True droid_pulse
     (Success_reply Droid_sink_parked_complete_cb 0 (Some call_operation))
     = Inr (droid_pulse,
            [Request (Set_source_port_by_index 0 ''input-parking''
                        (Some (Droid_source_parked_complete_cb, call_operation)))])
   \<and> dispatch alsa_tokens True droid_pulse
     (Success_reply Droid_source_parked_complete_cb 0 (Some call_operation))
     = Inr (droid_pulse,
            [Request (Get_sink_info_by_index 0 Set_output_port (Some call_operation))])
   \<and> dispatch alsa_tokens True droid_pulse
     (Sink_info_reply Set_output_port (Some droid_sink) 0 (Some call_operation))
     = Inr (droid_pulse\<lparr>current_mode := CALL_AUDIO_MODE_CALL\<rparr>,
            [Completion \<lparr>op_type = CAD_OPERATION_SELECT_MODE, op_success = True\<rparr>])"
  by (simp add: droid_pulse_def droid_card_def droid_sink_def call_operation_def example_defs
       set_card_profile_def droid_mode_change_complete_cb_def droid_sink_parked_complete_cb_def
       droid_source_parked_complete_cb_def set_output_port_def output_target_port_def
       get_available_sink_port_def port_skipped_def droid_names request_or_complete_def
       operation_complete_cb_def issue_def Let_def)

subsection \<open>The evaluations, read off\<close>

text \<open>The output port step on the sink whose only port is the excluded speaker returns
  no result at all.\<close>

theorem output_port_step_null_target_witness:
  "isl (set_output_port True (mk_pulse False False (Some ''Speaker''))
          (Some (mk_sink [mk_port ''Speaker'' 60 PA_PORT_AVAILABLE_YES]
                         (Some (mk_port ''Speaker'' 60 PA_PORT_AVAILABLE_YES)))) 0
          (Some (mk_operation CAD_OPERATION_ENABLE_SPEAKER 0)))"
  using output_port_step_null_target by simp

text \<open>What the output port step sends for the droid sink differs between the two
  back-ends, and so does what reconciliation sends.\<close>

theorem sink_selection_reads_source_flavor_witness:
  "map_sum id snd (set_output_port True (mk_pulse True False (Some ''output-speaker''))
        (Some droid_headset_sink) 0 (Some (mk_operation CAD_OPERATION_SELECT_MODE 1)))
     \<noteq> map_sum id snd (set_output_port True (mk_pulse True True (Some ''output-speaker''))
        (Some droid_headset_sink) 0 (Some (mk_operation CAD_OPERATION_SELECT_MODE 1)))
   \<and> snd (change_sink_info True (mk_pulse True False (Some ''output-speaker''))
             (Some droid_headset_sink) 0)
     \<noteq> snd (change_sink_info True (mk_pulse True True (Some ''output-speaker''))
               (Some droid_headset_sink) 0)"
proof -
  note e = sink_selection_reads_source_flavor
  from e have t: "set_output_port True (mk_pulse True False (Some ''output-speaker''))
        (Some droid_headset_sink) 0 (Some (mk_operation CAD_OPERATION_SELECT_MODE 1))
     = Inr (mk_pulse True False (Some ''output-speaker''),
            [Request (Set_sink_port_by_index 0 ''output-earpiece''
               (Some (Droid_output_port_change_complete_cb,
                      mk_operation CAD_OPERATION_SELECT_MODE 1)))])"
    and u: "set_output_port True (mk_pulse True True (Some ''output-speaker''))
        (Some droid_headset_sink) 0 (Some (mk_operation CAD_OPERATION_SELECT_MODE 1))
     = Inr (mk_pulse True True (Some ''output-speaker''),
            [Request (Set_sink_port_by_index 0 ''output-wired_headset''
               (Some (Droid_output_port_change_complete_cb,
                      mk_operation CAD_OPERATION_SELECT_MODE 1)))])"
    and v: "snd (change_sink_info True (mk_pulse True False (Some ''output-speaker''))
             (Some droid_headset_sink) 0)
     = [Request (Set_sink_port_by_index 0 ''output-speaker'' None)]"
    and w: "snd (change_sink_info True (mk_pulse True True (Some ''output-speaker''))
             (Some droid_headset_sink) 0)
     = [Request (Set_sink_port_by_index 0 ''output-wired_headset'' None)]"
    by blast+
  show ?thesis unfolding t u v w by simp
qed

text \<open>The last step of the chain of failed requests completes a mode selection with
  success.\<close>

theorem failed_requests_reported_as_success_witness:
  "\<exists>self' effs.
     dispatch alsa_tokens True droid_pulse
       (Sink_info_reply Set_output_port (Some droid_sink) 0 (Some call_operation))
       = Inr (self', effs)
     \<and> list_ex select_mode_success effs
     \<and> current_mode self' = CALL_AUDIO_MODE_CALL"
  using failed_requests_reported_as_success by simp

end
